theory Spec2Isabelle
  imports Main "HOL-Library.Word"
begin

section \<open>JavaScript values used by the client\<close>

text \<open>
  The client is a single React component, \<^verbatim>\<open>App\<close>, in two versions:
  \<^verbatim>\<open>src/unnamed/part_000\<close> (version 1.1.0) and \<^verbatim>\<open>src/frontend/src/App.tsx\<close> (version 1.0.0).
  Definitions without a suffix are translated from version 1.1.0; the definitions
  translated from version 1.0.0 carry the suffix \<open>_v100\<close>.

  A JavaScript string is a sequence of UTF-16 code units. Text that the program
  processes (titles, notes, messages, credentials) is a \<open>jsstring\<close>; the fixed ASCII
  literals of the markup (day names, class names) are HOL strings. JavaScript numbers
  that hold identifiers, day indices and difficulties are integers.
\<close>

type_synonym jsstring = "16 word list"

definition ascii :: "string \<Rightarrow> jsstring" where
  "ascii s = map of_char s"

text \<open>Truthiness of a string that may be \<^verbatim>\<open>null\<close>: \<^verbatim>\<open>null\<close> and \<^verbatim>\<open>''\<close> are falsy.\<close>

fun truthy_str :: "jsstring option \<Rightarrow> bool" where
  "truthy_str None = False"
| "truthy_str (Some s) = (s \<noteq> [])"

text \<open>
  \<^verbatim>\<open>a || b\<close> on a string or number that may be \<^verbatim>\<open>null\<close>: the left operand when it is
  truthy, the right one otherwise. \<^verbatim>\<open>0\<close> is the falsy number.
\<close>

definition or_str :: "jsstring option \<Rightarrow> jsstring \<Rightarrow> jsstring" where
  "or_str a b = (case a of None \<Rightarrow> b | Some s \<Rightarrow> if s \<noteq> [] then s else b)"

definition or_num :: "int option \<Rightarrow> int \<Rightarrow> int" where
  "or_num a b = (case a of None \<Rightarrow> b | Some n \<Rightarrow> if n \<noteq> 0 then n else b)"

text \<open>\<^verbatim>\<open>s || null\<close>.\<close>

definition or_null :: "jsstring \<Rightarrow> jsstring option" where
  "or_null s = (if s \<noteq> [] then Some s else None)"

text \<open>
  \<^verbatim>\<open>String.prototype.trim\<close> removes the leading and trailing code units that are
  white space or line terminators: TAB, LF, VT, FF, CR, SPACE, NBSP, U+1680,
  U+2000 to U+200A, U+2028, U+2029, U+202F, U+205F, U+3000 and U+FEFF.
\<close>

definition isWhiteSpace :: "16 word \<Rightarrow> bool" where
  "isWhiteSpace c =
     (c = 0x9 \<or> c = 0xA \<or> c = 0xB \<or> c = 0xC \<or> c = 0xD \<or> c = 0x20 \<or> c = 0xA0
      \<or> c = 0x1680 \<or> (0x2000 \<le> c \<and> c \<le> 0x200A) \<or> c = 0x2028 \<or> c = 0x2029
      \<or> c = 0x202F \<or> c = 0x205F \<or> c = 0x3000 \<or> c = 0xFEFF)"

definition trim :: "jsstring \<Rightarrow> jsstring" where
  "trim s = rev (dropWhile isWhiteSpace (rev (dropWhile isWhiteSpace s)))"

text \<open>The decimal digits of a number, as a template literal prints it.\<close>

function decimal :: "nat \<Rightarrow> jsstring" where
  "decimal n = (if n < 10 then [of_nat (48 + n)] else decimal (n div 10) @ [of_nat (48 + n mod 10)])"
  by pat_completeness auto
termination
  by (relation "measure id") auto

declare decimal.simps [simp del]

section \<open>Data model\<close>

text \<open>
  \<^verbatim>\<open>interface Challenge { id; title; is_active; week_start_date; created_at }\<close> and
  \<^verbatim>\<open>interface DailyEntry { id; challenge_id; day_index; completed; difficulty; note; created_at }\<close>.
  The fields \<^verbatim>\<open>id\<close>, \<^verbatim>\<open>created_at\<close> and \<^verbatim>\<open>note\<close> are renamed, the first two because both
  interfaces have them.
\<close>

record Challenge =
  c_id :: int
  title :: jsstring
  is_active :: bool
  week_start_date :: jsstring
  c_created_at :: jsstring

record DailyEntry =
  e_id :: int
  challenge_id :: int
  day_index :: int
  completed :: bool
  difficulty :: "int option"
  entry_note :: "jsstring option"
  e_created_at :: jsstring

text \<open>
  \<^verbatim>\<open>difficultyEmojis\<close>: the empty string, then U+1F605, U+1F610, U+1F62C, U+1F630 and
  U+1F525, each a surrogate pair.
\<close>

definition difficultyEmojis :: "jsstring list" where
  "difficultyEmojis =
     [[], [0xD83D, 0xDE05], [0xD83D, 0xDE10], [0xD83D, 0xDE2C], [0xD83D, 0xDE30], [0xD83D, 0xDD25]]"

definition dayNames :: "string list" where
  "dayNames = [''Mon'', ''Tue'', ''Wed'', ''Thu'', ''Fri'', ''Sat'', ''Sun'']"

text \<open>Reading an array at a number: \<^verbatim>\<open>undefined\<close> outside the array.\<close>

definition at_index :: "'a list \<Rightarrow> int \<Rightarrow> 'a option" where
  "at_index xs i = (if 0 \<le> i \<and> i < int (length xs) then Some (xs ! nat i) else None)"

section \<open>The day grid\<close>

text \<open>
  \<^verbatim>\<open>dayNames.map((day, index) => { const entry = dailyEntries.find(e => e.day_index === index); return (...) })\<close>.
  The callback first binds \<^verbatim>\<open>entry\<close> and then builds the cell from \<^verbatim>\<open>day\<close>, \<^verbatim>\<open>index\<close> and
  \<^verbatim>\<open>entry\<close>; \<open>daySlots\<close> is the first half, \<open>dayCell\<close> the second, \<open>dayGrid\<close> both.
\<close>

record day_slot =
  slot_index :: nat
  slot_day :: string
  slot_entry :: "DailyEntry option"

definition daySlots :: "DailyEntry list \<Rightarrow> day_slot list" where
  "daySlots dailyEntries =
     map (\<lambda>(index, day).
            \<lparr>slot_index = index, slot_day = day,
             slot_entry = find (\<lambda>e. day_index e = int index) dailyEntries\<rparr>)
         (enumerate 0 dayNames)"

text \<open>
  What the button of one day shows: a check mark, the emoji of the difficulty (nothing
  inside the \<^verbatim>\<open>div\<close> when the table has no such index), or a cross. In
  \<^verbatim>\<open>entry?.completed ? ... : entry?.difficulty ? ... : ...\<close> a difficulty that is \<^verbatim>\<open>null\<close> or
  \<^verbatim>\<open>0\<close> is falsy.
\<close>

datatype icon = Check_icon | Emoji_div "jsstring option" | X_icon

record day_cell =
  cell_key :: nat
  cell_label :: string
  cell_opens :: nat
  cell_className :: string
  cell_icon :: icon
  cell_noteIcon :: bool

text \<open>\<^verbatim>\<open>entry?.completed\<close>, \<^verbatim>\<open>entry?.difficulty\<close> and \<^verbatim>\<open>entry?.note\<close> as conditions.\<close>

definition entry_completed :: "DailyEntry option \<Rightarrow> bool" where
  "entry_completed entry = (case entry of None \<Rightarrow> False | Some e \<Rightarrow> completed e)"

definition entry_difficulty :: "DailyEntry option \<Rightarrow> int option" where
  "entry_difficulty entry = (case entry of None \<Rightarrow> None | Some e \<Rightarrow> difficulty e)"

definition entry_note_of :: "DailyEntry option \<Rightarrow> jsstring option" where
  "entry_note_of entry = (case entry of None \<Rightarrow> None | Some e \<Rightarrow> entry_note e)"

definition cellIcon :: "DailyEntry option \<Rightarrow> icon" where
  "cellIcon entry =
     (if entry_completed entry then Check_icon
      else (case entry_difficulty entry of
              None \<Rightarrow> X_icon
            | Some d \<Rightarrow> if d \<noteq> 0 then Emoji_div (at_index difficultyEmojis d) else X_icon))"

definition dayCell :: "day_slot \<Rightarrow> day_cell" where
  "dayCell s =
     \<lparr>cell_key = slot_index s, cell_label = slot_day s, cell_opens = slot_index s,
      cell_className =
        ''day-box w-full h-16 rounded-lg border-2 transition-colors flex flex-col items-center justify-center ''
        @ (if entry_completed (slot_entry s) then ''border-green-500'' else ''border-blue-500''),
      cell_icon = cellIcon (slot_entry s),
      cell_noteIcon = truthy_str (entry_note_of (slot_entry s))\<rparr>"

definition dayGrid :: "DailyEntry list \<Rightarrow> day_cell list" where
  "dayGrid dailyEntries = map dayCell (daySlots dailyEntries)"

text \<open>Version 1.0.0 differs in the class names of the button only.\<close>

definition daySlots_v100 :: "DailyEntry list \<Rightarrow> day_slot list" where
  "daySlots_v100 dailyEntries =
     map (\<lambda>(index, day).
            \<lparr>slot_index = index, slot_day = day,
             slot_entry = find (\<lambda>e. day_index e = int index) dailyEntries\<rparr>)
         (enumerate 0 dayNames)"

definition cellIcon_v100 :: "DailyEntry option \<Rightarrow> icon" where
  "cellIcon_v100 entry =
     (if entry_completed entry then Check_icon
      else (case entry_difficulty entry of
              None \<Rightarrow> X_icon
            | Some d \<Rightarrow> if d \<noteq> 0 then Emoji_div (at_index difficultyEmojis d) else X_icon))"

definition dayCell_v100 :: "day_slot \<Rightarrow> day_cell" where
  "dayCell_v100 s =
     \<lparr>cell_key = slot_index s, cell_label = slot_day s, cell_opens = slot_index s,
      cell_className =
        ''w-full h-16 rounded-lg border-2 transition-colors flex flex-col items-center justify-center ''
        @ (if entry_completed (slot_entry s) then ''border-green-500 bg-green-50''
           else ''border-gray-200 bg-gray-50 hover:bg-gray-100''),
      cell_icon = cellIcon_v100 (slot_entry s),
      cell_noteIcon = truthy_str (entry_note_of (slot_entry s))\<rparr>"

definition dayGrid_v100 :: "DailyEntry list \<Rightarrow> day_cell list" where
  "dayGrid_v100 dailyEntries = map dayCell_v100 (daySlots_v100 dailyEntries)"

section \<open>Dates\<close>

text \<open>
  A \<^verbatim>\<open>Date\<close> is its time value, the milliseconds since 1970-01-01T00:00:00Z. The local
  time zone is the number \<open>tz\<close> that \<^verbatim>\<open>getTimezoneOffset\<close> returns (minutes, UTC minus
  local time), taken as constant: the model is exact when the offset is the same at
  both instants, and does not cover a change of daylight-saving time between them. The
  functions follow the abstract operations of the
  language standard: \<open>Day\<close>, \<open>TimeWithinDay\<close>, \<open>WeekDay\<close>, \<open>DateFromTime\<close>,
  \<open>MakeDate\<close>, \<open>LocalTime\<close>, \<open>UTC\<close>.
\<close>

type_synonym Date = int

definition msPerDay :: int where
  "msPerDay = 86400000"

definition Day :: "int \<Rightarrow> int" where
  "Day t = t div msPerDay"

definition TimeWithinDay :: "int \<Rightarrow> int" where
  "TimeWithinDay t = t mod msPerDay"

definition WeekDay :: "int \<Rightarrow> int" where
  "WeekDay t = (Day t + 4) mod 7"

text \<open>
  The day of the month (1 to 31) of a time value in the proleptic Gregorian calendar,
  computed from the day number with the years counted from 1 March.
\<close>

definition DateFromTime :: "int \<Rightarrow> int" where
  "DateFromTime t =
     (let z = Day t + 719468;
          doe = z mod 146097;
          yoe = (doe - doe div 1460 + doe div 36524 - doe div 146096) div 365;
          doy = doe - (365 * yoe + yoe div 4 - yoe div 100);
          mp = (5 * doy + 2) div 153
      in doy - (153 * mp + 2) div 5 + 1)"

definition MakeDate :: "int \<Rightarrow> int \<Rightarrow> int" where
  "MakeDate day time = day * msPerDay + time"

definition LocalTime :: "int \<Rightarrow> int \<Rightarrow> int" where
  "LocalTime tz t = t - tz * 60000"

definition UTC :: "int \<Rightarrow> int \<Rightarrow> int" where
  "UTC tz t = t + tz * 60000"

definition getDate :: "int \<Rightarrow> Date \<Rightarrow> int" where
  "getDate tz d = DateFromTime (LocalTime tz d)"

definition getDay :: "int \<Rightarrow> Date \<Rightarrow> int" where
  "getDay tz d = WeekDay (LocalTime tz d)"

text \<open>
  \<^verbatim>\<open>setDate(dt)\<close> keeps the local year, month and time of day and sets the day of the
  month; a \<open>dt\<close> outside the month runs into the neighbouring months. The day number of
  day \<open>dt\<close> of the month of \<open>t\<close> is the day number of its first day plus \<open>dt - 1\<close>.
\<close>

definition MakeDay_in_month :: "int \<Rightarrow> int \<Rightarrow> int" where
  "MakeDay_in_month t dt = (Day t - (DateFromTime t - 1)) + dt - 1"

definition setDate :: "int \<Rightarrow> Date \<Rightarrow> int \<Rightarrow> Date" where
  "setDate tz d dt =
     (let t = LocalTime tz d
      in UTC tz (MakeDate (MakeDay_in_month t dt) (TimeWithinDay t)))"

text \<open>
  \<^verbatim>\<open>const monday = new Date(now); monday.setDate(now.getDate() - now.getDay() + 1);\<close>
  in \<^verbatim>\<open>createChallenge\<close>. The request carries \<^verbatim>\<open>monday.toISOString()\<close>, the text of this
  time value in UTC; the model keeps the time value.
\<close>

definition monday :: "int \<Rightarrow> Date \<Rightarrow> Date" where
  "monday tz now = setDate tz now (getDate tz now - getDay tz now + 1)"

definition monday_v100 :: "int \<Rightarrow> Date \<Rightarrow> Date" where
  "monday_v100 tz now = setDate tz now (getDate tz now - getDay tz now + 1)"

text \<open>
  The specification's week start: the Monday of the ISO week (Monday to Sunday) that
  contains a day, on day numbers counted from 1970-01-01, a Thursday.
\<close>

definition iso_week_monday :: "int \<Rightarrow> int" where
  "iso_week_monday day = day - (day + 3) mod 7"

section \<open>Requests and responses\<close>

text \<open>
  What \<^verbatim>\<open>catch (err)\<close> receives: an \<^verbatim>\<open>Error\<close> with its message, or any other value.
  \<open>message_or\<close> is \<^verbatim>\<open>err instanceof Error ? err.message : fallback\<close>.
\<close>

datatype thrown = Error jsstring | NotAnError

definition message_or :: "thrown \<Rightarrow> jsstring \<Rightarrow> jsstring" where
  "message_or err fallback = (case err of Error m \<Rightarrow> m | NotAnError \<Rightarrow> fallback)"

text \<open>
  The endpoints, appended to \<^verbatim>\<open>API_BASE\<close>: \<^verbatim>\<open>/register\<close>, \<^verbatim>\<open>/token\<close>,
  \<^verbatim>\<open>/challenges/current\<close>, \<^verbatim>\<open>/challenges\<close>, \<^verbatim>\<open>/challenges/${id}/days\<close> and
  \<^verbatim>\<open>/challenges/${id}/days/${dayIndex}\<close>.
\<close>

datatype endpoint =
    Register_path
  | Token_path
  | Challenges_current_path
  | Challenges_path
  | Challenge_days_path int
  | Challenge_day_path int int

text \<open>
  The bodies: \<^verbatim>\<open>JSON.stringify({ email, password })\<close>, the \<^verbatim>\<open>FormData\<close> with \<^verbatim>\<open>username\<close> and
  \<^verbatim>\<open>password\<close>, \<^verbatim>\<open>JSON.stringify({ title, week_start_date })\<close> and
  \<^verbatim>\<open>JSON.stringify({ completed, difficulty, note })\<close>, where \<^verbatim>\<open>difficulty\<close> and \<^verbatim>\<open>note\<close> may
  be \<^verbatim>\<open>null\<close> on the wire.
\<close>

datatype body =
    Register_json jsstring jsstring
  | Token_form jsstring jsstring
  | Challenge_json jsstring Date
  | Day_json bool "int option" "jsstring option"

datatype http_method = POST | PUT

record options =
  opt_method :: "http_method option"
  opt_body :: "body option"

definition no_options :: options where
  "no_options = \<lparr>opt_method = None, opt_body = None\<rparr>"

record request =
  req_url :: endpoint
  req_headers :: "(string \<times> jsstring) list"
  req_method :: "http_method option"
  req_body :: "body option"

text \<open>
  What \<^verbatim>\<open>fetch\<close> and the reading of the response give: \<^verbatim>\<open>fetch\<close> rejects; or the
  response is not \<^verbatim>\<open>ok\<close>, with its status and the \<^verbatim>\<open>detail\<close> of its JSON body (\<open>None\<close>
  when \<^verbatim>\<open>response.json()\<close> rejects, \<open>Some None\<close> when the body has no \<^verbatim>\<open>detail\<close>); or
  the response is \<^verbatim>\<open>ok\<close>, with the outcome of \<^verbatim>\<open>response.json()\<close>. A \<^verbatim>\<open>detail\<close> that is
  not a string is outside the model.
\<close>

datatype 'a fetched =
    Rejected thrown
  | Not_ok nat "jsstring option option"
  | Ok "thrown + 'a"

definition isFormData :: "body option \<Rightarrow> bool" where
  "isFormData b = (case b of Some (Token_form u p) \<Rightarrow> True | _ \<Rightarrow> False)"

text \<open>
  \<^verbatim>\<open>apiCall\<close>: the request it sends, and what it returns or throws. \<open>tok\<close> is the
  \<^verbatim>\<open>token\<close> of the render that created the closure.
\<close>

definition apiCall ::
  "jsstring option \<Rightarrow> endpoint \<Rightarrow> options \<Rightarrow> 'a fetched \<Rightarrow> request \<times> (thrown + 'a)" where
  "apiCall tok endpoint options response =
     (let defaultHeaders =
            (if truthy_str tok then [(''Authorization'', ascii ''Bearer '' @ or_str tok [])] else [])
            @ (if \<not> isFormData (opt_body options)
               then [(''Content-Type'', ascii ''application/json'')] else [])
      in (\<lparr>req_url = endpoint, req_headers = defaultHeaders,
           req_method = opt_method options, req_body = opt_body options\<rparr>,
          (case response of
             Rejected err \<Rightarrow> Inl err
           | Not_ok status errorData \<Rightarrow>
               Inl (Error (or_str (case errorData of
                                     None \<Rightarrow> Some (ascii ''Network error'')
                                   | Some detail \<Rightarrow> detail)
                                  (ascii ''HTTP '' @ decimal status)))
           | Ok json \<Rightarrow> json)))"

section \<open>Component state\<close>

datatype auth_mode = Login | Register

record app_state =
  token :: "jsstring option"
  authMode :: auth_mode
  loading :: bool
  error :: jsstring
  currentChallenge :: "Challenge option"
  dailyEntries :: "DailyEntry list"
  challenges :: "Challenge list"
  showEditDay :: "int option"
  showNewChallenge :: bool
  showHistory :: bool
  showPassword :: bool
  email :: jsstring
  password :: jsstring
  editCompleted :: bool
  editDifficulty :: int
  editNote :: jsstring
  newChallengeTitle :: jsstring

text \<open>
  The \<^verbatim>\<open>useState\<close> initial values; \<open>stored\<close> is \<^verbatim>\<open>localStorage.getItem('token')\<close>.
\<close>

definition initial_state :: "jsstring option \<Rightarrow> app_state" where
  "initial_state stored =
     \<lparr>token = stored, authMode = Login, loading = False, error = [],
      currentChallenge = None, dailyEntries = [], challenges = [],
      showEditDay = None, showNewChallenge = False, showHistory = False, showPassword = False,
      email = [], password = [],
      editCompleted = False, editDifficulty = 1, editNote = [],
      newChallengeTitle = []\<rparr>"

text \<open>
  What a handler does beside setting state, in order: requests, writes to
  \<^verbatim>\<open>localStorage\<close> under the key \<^verbatim>\<open>token\<close>, \<^verbatim>\<open>console.error\<close> and \<^verbatim>\<open>e.preventDefault()\<close>.
  A handler is modelled as one step that is given the responses of the server: the
  state after all its state updates, and its effects. The asynchronous calls a handler
  starts without awaiting them (\<^verbatim>\<open>fetchCurrentChallenge(); fetchChallenges();\<close>) write
  different state variables; they are run one after the other, so the effects of the
  first are listed before those of the second, where the browser sends the request for
  \<^verbatim>\<open>/challenges\<close> before the one for the days. The order of the effects of different
  asynchronous calls is not part of the model.
\<close>

datatype effect =
    Fetch request
  | SetItem jsstring
  | RemoveItem
  | ConsoleError thrown
  | PreventDefault

section \<open>Handlers\<close>

text \<open>
  \<^verbatim>\<open>fetchCurrentChallenge\<close>. The response to \<^verbatim>\<open>/challenges/current\<close> may be the JSON value
  \<^verbatim>\<open>null\<close> (\<open>None\<close>); then \<^verbatim>\<open>challenge.id\<close> throws inside the \<^verbatim>\<open>try\<close>. Every \<^verbatim>\<open>catch\<close> ends in
  \<^verbatim>\<open>setCurrentChallenge(null); setDailyEntries([])\<close>.
\<close>

definition fetchCurrentChallenge ::
  "app_state \<Rightarrow> Challenge option fetched \<Rightarrow> DailyEntry list fetched \<Rightarrow> app_state \<times> effect list" where
  "fetchCurrentChallenge st r_current r_days =
     (case apiCall (token st) Challenges_current_path no_options r_current of
        (q1, Inl err) \<Rightarrow> (st\<lparr>currentChallenge := None, dailyEntries := []\<rparr>, [Fetch q1])
      | (q1, Inr None) \<Rightarrow> (st\<lparr>currentChallenge := None, dailyEntries := []\<rparr>, [Fetch q1])
      | (q1, Inr (Some challenge)) \<Rightarrow>
          (case apiCall (token st) (Challenge_days_path (c_id challenge)) no_options r_days of
             (q2, Inl err) \<Rightarrow>
               (st\<lparr>currentChallenge := None, dailyEntries := []\<rparr>, [Fetch q1, Fetch q2])
           | (q2, Inr entries) \<Rightarrow>
               (st\<lparr>currentChallenge := Some challenge, dailyEntries := entries\<rparr>,
                [Fetch q1, Fetch q2])))"

definition fetchChallenges :: "app_state \<Rightarrow> Challenge list fetched \<Rightarrow> app_state \<times> effect list" where
  "fetchChallenges st r_all =
     (case apiCall (token st) Challenges_path no_options r_all of
        (q, Inr cs) \<Rightarrow> (st\<lparr>challenges := cs\<rparr>, [Fetch q])
      | (q, Inl err) \<Rightarrow> (st, [Fetch q, ConsoleError err]))"

text \<open>
  \<^verbatim>\<open>useEffect(() => { if (token) { fetchCurrentChallenge(); fetchChallenges(); } }, [token])\<close>.
\<close>

definition tokenEffect ::
  "app_state \<Rightarrow> Challenge option fetched \<Rightarrow> DailyEntry list fetched \<Rightarrow> Challenge list fetched
     \<Rightarrow> app_state \<times> effect list" where
  "tokenEffect st r_current r_days r_all =
     (if truthy_str (token st)
      then (let (st1, fx1) = fetchCurrentChallenge st r_current r_days;
                (st2, fx2) = fetchChallenges st1 r_all
            in (st2, fx1 @ fx2))
      else (st, []))"

text \<open>
  \<^verbatim>\<open>handleAuth\<close>: \<open>r_register\<close> answers \<^verbatim>\<open>/register\<close>, \<open>r_token\<close> answers \<^verbatim>\<open>/token\<close> with
  the \<^verbatim>\<open>access_token\<close> of the response.
\<close>

definition handleAuth ::
  "app_state \<Rightarrow> unit fetched \<Rightarrow> jsstring fetched \<Rightarrow> app_state \<times> effect list" where
  "handleAuth st r_register r_token =
     (let st1 = st\<lparr>loading := True, error := []\<rparr>
      in if authMode st = Register
         then (case apiCall (token st) Register_path
                      \<lparr>opt_method = Some POST,
                       opt_body = Some (Register_json (email st) (password st))\<rparr> r_register of
                 (q, Inr u) \<Rightarrow>
                   (st1\<lparr>authMode := Login, password := [],
                        error := ascii ''Registration successful! Please log in.'',
                        loading := False\<rparr>,
                    [PreventDefault, Fetch q])
               | (q, Inl err) \<Rightarrow>
                   (st1\<lparr>error := message_or err (ascii ''Authentication failed''),
                        loading := False\<rparr>,
                    [PreventDefault, Fetch q]))
         else (case apiCall (token st) Token_path
                      \<lparr>opt_method = Some POST,
                       opt_body = Some (Token_form (email st) (password st))\<rparr> r_token of
                 (q, Inr access_token) \<Rightarrow>
                   (st1\<lparr>token := Some access_token, loading := False\<rparr>,
                    [PreventDefault, Fetch q, SetItem access_token])
               | (q, Inl err) \<Rightarrow>
                   (st1\<lparr>error := message_or err (ascii ''Authentication failed''),
                        loading := False\<rparr>,
                    [PreventDefault, Fetch q])))"

definition handleLogout :: "app_state \<Rightarrow> app_state \<times> effect list" where
  "handleLogout st =
     (st\<lparr>token := None, currentChallenge := None, dailyEntries := [], challenges := []\<rparr>,
      [RemoveItem])"

text \<open>
  \<^verbatim>\<open>createChallenge\<close>: \<open>now\<close> is \<^verbatim>\<open>new Date()\<close>; \<open>r_create\<close> answers the \<^verbatim>\<open>POST\<close>, the other
  responses answer the two fetches started after it.
\<close>

definition createChallenge ::
  "int \<Rightarrow> app_state \<Rightarrow> Date \<Rightarrow> unit fetched \<Rightarrow> Challenge option fetched \<Rightarrow> DailyEntry list fetched
     \<Rightarrow> Challenge list fetched \<Rightarrow> app_state \<times> effect list" where
  "createChallenge tz st now r_create r_current r_days r_all =
     (if trim (newChallengeTitle st) = [] then (st, [PreventDefault])
      else
        (let st1 = st\<lparr>loading := True\<rparr>
         in case apiCall (token st) Challenges_path
                   \<lparr>opt_method = Some POST,
                    opt_body = Some (Challenge_json (newChallengeTitle st) (monday tz now))\<rparr>
                   r_create of
              (q, Inr u) \<Rightarrow>
                (let st2 = st1\<lparr>newChallengeTitle := [], showNewChallenge := False\<rparr>;
                     (st3, fx3) = fetchCurrentChallenge st2 r_current r_days;
                     (st4, fx4) = fetchChallenges st3 r_all
                 in (st4\<lparr>loading := False\<rparr>, [PreventDefault, Fetch q] @ fx3 @ fx4))
            | (q, Inl err) \<Rightarrow>
                (st1\<lparr>error := message_or err (ascii ''Failed to create challenge''),
                     loading := False\<rparr>,
                 [PreventDefault, Fetch q])))"

definition updateDayEntry ::
  "app_state \<Rightarrow> int \<Rightarrow> unit fetched \<Rightarrow> Challenge option fetched \<Rightarrow> DailyEntry list fetched
     \<Rightarrow> app_state \<times> effect list" where
  "updateDayEntry st dayIndex r_put r_current r_days =
     (case currentChallenge st of
        None \<Rightarrow> (st, [])
      | Some ch \<Rightarrow>
          (let st1 = st\<lparr>loading := True\<rparr>
           in case apiCall (token st) (Challenge_day_path (c_id ch) dayIndex)
                     \<lparr>opt_method = Some PUT,
                      opt_body = Some (Day_json (editCompleted st) (Some (editDifficulty st))
                                         (or_null (trim (editNote st))))\<rparr>
                     r_put of
                (q, Inr u) \<Rightarrow>
                  (let (st2, fx2) = fetchCurrentChallenge st1 r_current r_days
                   in (st2\<lparr>showEditDay := None, loading := False\<rparr>, Fetch q # fx2))
              | (q, Inl err) \<Rightarrow>
                  (st1\<lparr>error := message_or err (ascii ''Failed to update day''),
                       loading := False\<rparr>,
                   [Fetch q])))"

definition openEditDay :: "app_state \<Rightarrow> int \<Rightarrow> app_state" where
  "openEditDay st dayIndex =
     (case find (\<lambda>e. day_index e = dayIndex) (dailyEntries st) of
        Some entry \<Rightarrow>
          st\<lparr>editCompleted := completed entry,
             editDifficulty := or_num (difficulty entry) 1,
             editNote := or_str (entry_note entry) [],
             showEditDay := Some dayIndex\<rparr>
      | None \<Rightarrow>
          st\<lparr>editCompleted := False, editDifficulty := 1, editNote := [],
             showEditDay := Some dayIndex\<rparr>)"

section \<open>What the component shows\<close>

text \<open>
  The part of the returned markup that depends on the state: the login form when
  \<^verbatim>\<open>!token\<close>; otherwise the current challenge with its day grid or the text
  \<^verbatim>\<open>No active challenge\<close>, the version footer, and the three dialogs and the error toast
  when their conditions hold. On the login form the error is shown inside the form.
\<close>

definition APP_VERSION :: string where
  "APP_VERSION = ''1.1.0''"

datatype panel = Auth_form | Current_challenge "day_cell list" | No_active_challenge

record view =
  view_panel :: panel
  view_version :: "string option"
  view_editDay :: "int option"
  view_newChallenge :: bool
  view_history :: "Challenge list option"
  view_error :: "jsstring option"

definition App_view :: "app_state \<Rightarrow> view" where
  "App_view st =
     (if \<not> truthy_str (token st)
      then \<lparr>view_panel = Auth_form, view_version = None, view_editDay = None,
            view_newChallenge = False, view_history = None,
            view_error = or_null (error st)\<rparr>
      else \<lparr>view_panel = (case currentChallenge st of
                            Some c \<Rightarrow> Current_challenge (dayGrid (dailyEntries st))
                          | None \<Rightarrow> No_active_challenge),
            view_version = Some (''v'' @ APP_VERSION),
            view_editDay = showEditDay st,
            view_newChallenge = showNewChallenge st,
            view_history = (if showHistory st then Some (challenges st) else None),
            view_error = or_null (error st)\<rparr>)"

section \<open>Events\<close>

text \<open>
  The events the markup wires to handlers, with the responses of the server that the
  handler awaits. \<open>Token_effect\<close> is the \<^verbatim>\<open>useEffect\<close> on \<^verbatim>\<open>token\<close>, which runs after the
  first render and after every change of the token; in a session it may run at any
  time, which allows more sessions than the component has.
\<close>

datatype event =
    Token_effect "Challenge option fetched" "DailyEntry list fetched" "Challenge list fetched"
  | Change_email jsstring
  | Change_password jsstring
  | Toggle_showPassword
  | Toggle_authMode
  | Submit_auth "unit fetched" "jsstring fetched"
  | Click_logout
  | Click_day nat
  | Click_new_challenge
  | Click_history
  | Close_history
  | Click_completed bool
  | Click_difficulty int
  | Change_note jsstring
  | Cancel_edit
  | Click_save "unit fetched" "Challenge option fetched" "DailyEntry list fetched"
  | Change_title jsstring
  | Cancel_new_challenge
  | Submit_new_challenge Date "unit fetched" "Challenge option fetched" "DailyEntry list fetched"
      "Challenge list fetched"
  | Dismiss_error

text \<open>
  An event can happen when its element is rendered: the login form when \<^verbatim>\<open>!token\<close>, the
  day buttons (one per entry of \<^verbatim>\<open>dayNames\<close>) when there is a current challenge, the
  difficulty buttons \<^verbatim>\<open>[1, 2, 3, 4, 5].map(...)\<close> in the edit dialog. A submit button with
  \<^verbatim>\<open>disabled={loading}\<close> cannot be pressed while loading, and a form with a \<^verbatim>\<open>required\<close>
  input is not submitted while that input is empty. The check of the browser that an
  \<^verbatim>\<open>type="email"\<close> input holds an address is left out, which allows more sessions than
  the component has.
\<close>

fun enabled :: "app_state \<Rightarrow> event \<Rightarrow> bool" where
  "enabled st (Token_effect r1 r2 r3) = True"
| "enabled st (Change_email s) = (\<not> truthy_str (token st))"
| "enabled st (Change_password s) = (\<not> truthy_str (token st))"
| "enabled st Toggle_showPassword = (\<not> truthy_str (token st))"
| "enabled st Toggle_authMode = (\<not> truthy_str (token st))"
| "enabled st (Submit_auth r1 r2) =
     (\<not> truthy_str (token st) \<and> \<not> loading st \<and> email st \<noteq> [] \<and> password st \<noteq> [])"
| "enabled st Click_logout = truthy_str (token st)"
| "enabled st (Click_day index) =
     (truthy_str (token st) \<and> currentChallenge st \<noteq> None \<and> index < length dayNames)"
| "enabled st Click_new_challenge = truthy_str (token st)"
| "enabled st Click_history = truthy_str (token st)"
| "enabled st Close_history = (truthy_str (token st) \<and> showHistory st)"
| "enabled st (Click_completed b) = (truthy_str (token st) \<and> showEditDay st \<noteq> None)"
| "enabled st (Click_difficulty level) =
     (truthy_str (token st) \<and> showEditDay st \<noteq> None \<and> level \<in> set [1, 2, 3, 4, 5])"
| "enabled st (Change_note s) = (truthy_str (token st) \<and> showEditDay st \<noteq> None)"
| "enabled st Cancel_edit = (truthy_str (token st) \<and> showEditDay st \<noteq> None)"
| "enabled st (Click_save r1 r2 r3) =
     (truthy_str (token st) \<and> showEditDay st \<noteq> None \<and> \<not> loading st)"
| "enabled st (Change_title s) = (truthy_str (token st) \<and> showNewChallenge st)"
| "enabled st Cancel_new_challenge = (truthy_str (token st) \<and> showNewChallenge st)"
| "enabled st (Submit_new_challenge now r1 r2 r3 r4) =
     (truthy_str (token st) \<and> showNewChallenge st \<and> \<not> loading st \<and> newChallengeTitle st \<noteq> [])"
| "enabled st Dismiss_error = (truthy_str (token st) \<and> error st \<noteq> [])"

fun handle :: "int \<Rightarrow> app_state \<Rightarrow> event \<Rightarrow> app_state \<times> effect list" where
  "handle tz st (Token_effect r1 r2 r3) = tokenEffect st r1 r2 r3"
| "handle tz st (Change_email s) = (st\<lparr>email := s\<rparr>, [])"
| "handle tz st (Change_password s) = (st\<lparr>password := s\<rparr>, [])"
| "handle tz st Toggle_showPassword = (st\<lparr>showPassword := \<not> showPassword st\<rparr>, [])"
| "handle tz st Toggle_authMode =
     (st\<lparr>authMode := (if authMode st = Login then Register else Login), error := []\<rparr>, [])"
| "handle tz st (Submit_auth r1 r2) = handleAuth st r1 r2"
| "handle tz st Click_logout = handleLogout st"
| "handle tz st (Click_day index) = (openEditDay st (int index), [])"
| "handle tz st Click_new_challenge = (st\<lparr>showNewChallenge := True\<rparr>, [])"
| "handle tz st Click_history = (st\<lparr>showHistory := True\<rparr>, [])"
| "handle tz st Close_history = (st\<lparr>showHistory := False\<rparr>, [])"
| "handle tz st (Click_completed b) = (st\<lparr>editCompleted := b\<rparr>, [])"
| "handle tz st (Click_difficulty level) = (st\<lparr>editDifficulty := level\<rparr>, [])"
| "handle tz st (Change_note s) = (st\<lparr>editNote := s\<rparr>, [])"
| "handle tz st Cancel_edit = (st\<lparr>showEditDay := None\<rparr>, [])"
| "handle tz st (Click_save r1 r2 r3) =
     (case showEditDay st of
        None \<Rightarrow> (st, [])
      | Some dayIndex \<Rightarrow> updateDayEntry st dayIndex r1 r2 r3)"
| "handle tz st (Change_title s) = (st\<lparr>newChallengeTitle := s\<rparr>, [])"
| "handle tz st Cancel_new_challenge = (st\<lparr>showNewChallenge := False\<rparr>, [])"
| "handle tz st (Submit_new_challenge now r1 r2 r3 r4) = createChallenge tz st now r1 r2 r3 r4"
| "handle tz st Dismiss_error = (st\<lparr>error := []\<rparr>, [])"

definition fire :: "int \<Rightarrow> app_state \<Rightarrow> event \<Rightarrow> app_state \<times> effect list" where
  "fire tz st ev = (if enabled st ev then handle tz st ev else (st, []))"


section \<open>Version 1.0.0\<close>

text \<open>
  The same functions translated from \<^verbatim>\<open>src/frontend/src/App.tsx\<close>: the state variables,
  the interfaces and the wiring of the events are those of version 1.1.0, so the types
  are shared.
\<close>

definition apiCall_v100 ::
  "jsstring option \<Rightarrow> endpoint \<Rightarrow> options \<Rightarrow> 'a fetched \<Rightarrow> request \<times> (thrown + 'a)" where
  "apiCall_v100 tok endpoint options response =
     (let defaultHeaders =
            (if truthy_str tok then [(''Authorization'', ascii ''Bearer '' @ or_str tok [])] else [])
            @ (if \<not> isFormData (opt_body options)
               then [(''Content-Type'', ascii ''application/json'')] else [])
      in (\<lparr>req_url = endpoint, req_headers = defaultHeaders,
           req_method = opt_method options, req_body = opt_body options\<rparr>,
          (case response of
             Rejected err \<Rightarrow> Inl err
           | Not_ok status errorData \<Rightarrow>
               Inl (Error (or_str (case errorData of
                                     None \<Rightarrow> Some (ascii ''Network error'')
                                   | Some detail \<Rightarrow> detail)
                                  (ascii ''HTTP '' @ decimal status)))
           | Ok json \<Rightarrow> json)))"

definition initial_state_v100 :: "jsstring option \<Rightarrow> app_state" where
  "initial_state_v100 stored =
     \<lparr>token = stored, authMode = Login, loading = False, error = [],
      currentChallenge = None, dailyEntries = [], challenges = [],
      showEditDay = None, showNewChallenge = False, showHistory = False, showPassword = False,
      email = [], password = [],
      editCompleted = False, editDifficulty = 1, editNote = [],
      newChallengeTitle = []\<rparr>"

definition fetchCurrentChallenge_v100 ::
  "app_state \<Rightarrow> Challenge option fetched \<Rightarrow> DailyEntry list fetched \<Rightarrow> app_state \<times> effect list" where
  "fetchCurrentChallenge_v100 st r_current r_days =
     (case apiCall_v100 (token st) Challenges_current_path no_options r_current of
        (q1, Inl err) \<Rightarrow> (st\<lparr>currentChallenge := None, dailyEntries := []\<rparr>, [Fetch q1])
      | (q1, Inr None) \<Rightarrow> (st\<lparr>currentChallenge := None, dailyEntries := []\<rparr>, [Fetch q1])
      | (q1, Inr (Some challenge)) \<Rightarrow>
          (case apiCall_v100 (token st) (Challenge_days_path (c_id challenge)) no_options r_days of
             (q2, Inl err) \<Rightarrow>
               (st\<lparr>currentChallenge := None, dailyEntries := []\<rparr>, [Fetch q1, Fetch q2])
           | (q2, Inr entries) \<Rightarrow>
               (st\<lparr>currentChallenge := Some challenge, dailyEntries := entries\<rparr>,
                [Fetch q1, Fetch q2])))"

definition fetchChallenges_v100 :: "app_state \<Rightarrow> Challenge list fetched \<Rightarrow> app_state \<times> effect list" where
  "fetchChallenges_v100 st r_all =
     (case apiCall_v100 (token st) Challenges_path no_options r_all of
        (q, Inr cs) \<Rightarrow> (st\<lparr>challenges := cs\<rparr>, [Fetch q])
      | (q, Inl err) \<Rightarrow> (st, [Fetch q, ConsoleError err]))"

definition tokenEffect_v100 ::
  "app_state \<Rightarrow> Challenge option fetched \<Rightarrow> DailyEntry list fetched \<Rightarrow> Challenge list fetched
     \<Rightarrow> app_state \<times> effect list" where
  "tokenEffect_v100 st r_current r_days r_all =
     (if truthy_str (token st)
      then (let (st1, fx1) = fetchCurrentChallenge_v100 st r_current r_days;
                (st2, fx2) = fetchChallenges_v100 st1 r_all
            in (st2, fx1 @ fx2))
      else (st, []))"

definition handleAuth_v100 ::
  "app_state \<Rightarrow> unit fetched \<Rightarrow> jsstring fetched \<Rightarrow> app_state \<times> effect list" where
  "handleAuth_v100 st r_register r_token =
     (let st1 = st\<lparr>loading := True, error := []\<rparr>
      in if authMode st = Register
         then (case apiCall_v100 (token st) Register_path
                      \<lparr>opt_method = Some POST,
                       opt_body = Some (Register_json (email st) (password st))\<rparr> r_register of
                 (q, Inr u) \<Rightarrow>
                   (st1\<lparr>authMode := Login, password := [],
                        error := ascii ''Registration successful! Please log in.'',
                        loading := False\<rparr>,
                    [PreventDefault, Fetch q])
               | (q, Inl err) \<Rightarrow>
                   (st1\<lparr>error := message_or err (ascii ''Authentication failed''),
                        loading := False\<rparr>,
                    [PreventDefault, Fetch q]))
         else (case apiCall_v100 (token st) Token_path
                      \<lparr>opt_method = Some POST,
                       opt_body = Some (Token_form (email st) (password st))\<rparr> r_token of
                 (q, Inr access_token) \<Rightarrow>
                   (st1\<lparr>token := Some access_token, loading := False\<rparr>,
                    [PreventDefault, Fetch q, SetItem access_token])
               | (q, Inl err) \<Rightarrow>
                   (st1\<lparr>error := message_or err (ascii ''Authentication failed''),
                        loading := False\<rparr>,
                    [PreventDefault, Fetch q])))"

definition handleLogout_v100 :: "app_state \<Rightarrow> app_state \<times> effect list" where
  "handleLogout_v100 st =
     (st\<lparr>token := None, currentChallenge := None, dailyEntries := [], challenges := []\<rparr>,
      [RemoveItem])"

definition createChallenge_v100 ::
  "int \<Rightarrow> app_state \<Rightarrow> Date \<Rightarrow> unit fetched \<Rightarrow> Challenge option fetched \<Rightarrow> DailyEntry list fetched
     \<Rightarrow> Challenge list fetched \<Rightarrow> app_state \<times> effect list" where
  "createChallenge_v100 tz st now r_create r_current r_days r_all =
     (if trim (newChallengeTitle st) = [] then (st, [PreventDefault])
      else
        (let st1 = st\<lparr>loading := True\<rparr>
         in case apiCall_v100 (token st) Challenges_path
                   \<lparr>opt_method = Some POST,
                    opt_body = Some (Challenge_json (newChallengeTitle st) (monday_v100 tz now))\<rparr>
                   r_create of
              (q, Inr u) \<Rightarrow>
                (let st2 = st1\<lparr>newChallengeTitle := [], showNewChallenge := False\<rparr>;
                     (st3, fx3) = fetchCurrentChallenge_v100 st2 r_current r_days;
                     (st4, fx4) = fetchChallenges_v100 st3 r_all
                 in (st4\<lparr>loading := False\<rparr>, [PreventDefault, Fetch q] @ fx3 @ fx4))
            | (q, Inl err) \<Rightarrow>
                (st1\<lparr>error := message_or err (ascii ''Failed to create challenge''),
                     loading := False\<rparr>,
                 [PreventDefault, Fetch q])))"

definition updateDayEntry_v100 ::
  "app_state \<Rightarrow> int \<Rightarrow> unit fetched \<Rightarrow> Challenge option fetched \<Rightarrow> DailyEntry list fetched
     \<Rightarrow> app_state \<times> effect list" where
  "updateDayEntry_v100 st dayIndex r_put r_current r_days =
     (case currentChallenge st of
        None \<Rightarrow> (st, [])
      | Some ch \<Rightarrow>
          (let st1 = st\<lparr>loading := True\<rparr>
           in case apiCall_v100 (token st) (Challenge_day_path (c_id ch) dayIndex)
                     \<lparr>opt_method = Some PUT,
                      opt_body = Some (Day_json (editCompleted st) (Some (editDifficulty st))
                                         (or_null (trim (editNote st))))\<rparr>
                     r_put of
                (q, Inr u) \<Rightarrow>
                  (let (st2, fx2) = fetchCurrentChallenge_v100 st1 r_current r_days
                   in (st2\<lparr>showEditDay := None, loading := False\<rparr>, Fetch q # fx2))
              | (q, Inl err) \<Rightarrow>
                  (st1\<lparr>error := message_or err (ascii ''Failed to update day''),
                       loading := False\<rparr>,
                   [Fetch q])))"

definition openEditDay_v100 :: "app_state \<Rightarrow> int \<Rightarrow> app_state" where
  "openEditDay_v100 st dayIndex =
     (case find (\<lambda>e. day_index e = dayIndex) (dailyEntries st) of
        Some entry \<Rightarrow>
          st\<lparr>editCompleted := completed entry,
             editDifficulty := or_num (difficulty entry) 1,
             editNote := or_str (entry_note entry) [],
             showEditDay := Some dayIndex\<rparr>
      | None \<Rightarrow>
          st\<lparr>editCompleted := False, editDifficulty := 1, editNote := [],
             showEditDay := Some dayIndex\<rparr>)"

definition APP_VERSION_v100 :: string where
  "APP_VERSION_v100 = ''1.0.0''"

definition App_view_v100 :: "app_state \<Rightarrow> view" where
  "App_view_v100 st =
     (if \<not> truthy_str (token st)
      then \<lparr>view_panel = Auth_form, view_version = None, view_editDay = None,
            view_newChallenge = False, view_history = None,
            view_error = or_null (error st)\<rparr>
      else \<lparr>view_panel = (case currentChallenge st of
                            Some c \<Rightarrow> Current_challenge (dayGrid_v100 (dailyEntries st))
                          | None \<Rightarrow> No_active_challenge),
            view_version = Some (''v'' @ APP_VERSION_v100),
            view_editDay = showEditDay st,
            view_newChallenge = showNewChallenge st,
            view_history = (if showHistory st then Some (challenges st) else None),
            view_error = or_null (error st)\<rparr>)"

fun enabled_v100 :: "app_state \<Rightarrow> event \<Rightarrow> bool" where
  "enabled_v100 st (Token_effect r1 r2 r3) = True"
| "enabled_v100 st (Change_email s) = (\<not> truthy_str (token st))"
| "enabled_v100 st (Change_password s) = (\<not> truthy_str (token st))"
| "enabled_v100 st Toggle_showPassword = (\<not> truthy_str (token st))"
| "enabled_v100 st Toggle_authMode = (\<not> truthy_str (token st))"
| "enabled_v100 st (Submit_auth r1 r2) =
     (\<not> truthy_str (token st) \<and> \<not> loading st \<and> email st \<noteq> [] \<and> password st \<noteq> [])"
| "enabled_v100 st Click_logout = truthy_str (token st)"
| "enabled_v100 st (Click_day index) =
     (truthy_str (token st) \<and> currentChallenge st \<noteq> None \<and> index < length dayNames)"
| "enabled_v100 st Click_new_challenge = truthy_str (token st)"
| "enabled_v100 st Click_history = truthy_str (token st)"
| "enabled_v100 st Close_history = (truthy_str (token st) \<and> showHistory st)"
| "enabled_v100 st (Click_completed b) = (truthy_str (token st) \<and> showEditDay st \<noteq> None)"
| "enabled_v100 st (Click_difficulty level) =
     (truthy_str (token st) \<and> showEditDay st \<noteq> None \<and> level \<in> set [1, 2, 3, 4, 5])"
| "enabled_v100 st (Change_note s) = (truthy_str (token st) \<and> showEditDay st \<noteq> None)"
| "enabled_v100 st Cancel_edit = (truthy_str (token st) \<and> showEditDay st \<noteq> None)"
| "enabled_v100 st (Click_save r1 r2 r3) =
     (truthy_str (token st) \<and> showEditDay st \<noteq> None \<and> \<not> loading st)"
| "enabled_v100 st (Change_title s) = (truthy_str (token st) \<and> showNewChallenge st)"
| "enabled_v100 st Cancel_new_challenge = (truthy_str (token st) \<and> showNewChallenge st)"
| "enabled_v100 st (Submit_new_challenge now r1 r2 r3 r4) =
     (truthy_str (token st) \<and> showNewChallenge st \<and> \<not> loading st \<and> newChallengeTitle st \<noteq> [])"
| "enabled_v100 st Dismiss_error = (truthy_str (token st) \<and> error st \<noteq> [])"

fun handle_v100 :: "int \<Rightarrow> app_state \<Rightarrow> event \<Rightarrow> app_state \<times> effect list" where
  "handle_v100 tz st (Token_effect r1 r2 r3) = tokenEffect_v100 st r1 r2 r3"
| "handle_v100 tz st (Change_email s) = (st\<lparr>email := s\<rparr>, [])"
| "handle_v100 tz st (Change_password s) = (st\<lparr>password := s\<rparr>, [])"
| "handle_v100 tz st Toggle_showPassword = (st\<lparr>showPassword := \<not> showPassword st\<rparr>, [])"
| "handle_v100 tz st Toggle_authMode =
     (st\<lparr>authMode := (if authMode st = Login then Register else Login), error := []\<rparr>, [])"
| "handle_v100 tz st (Submit_auth r1 r2) = handleAuth_v100 st r1 r2"
| "handle_v100 tz st Click_logout = handleLogout_v100 st"
| "handle_v100 tz st (Click_day index) = (openEditDay_v100 st (int index), [])"
| "handle_v100 tz st Click_new_challenge = (st\<lparr>showNewChallenge := True\<rparr>, [])"
| "handle_v100 tz st Click_history = (st\<lparr>showHistory := True\<rparr>, [])"
| "handle_v100 tz st Close_history = (st\<lparr>showHistory := False\<rparr>, [])"
| "handle_v100 tz st (Click_completed b) = (st\<lparr>editCompleted := b\<rparr>, [])"
| "handle_v100 tz st (Click_difficulty level) = (st\<lparr>editDifficulty := level\<rparr>, [])"
| "handle_v100 tz st (Change_note s) = (st\<lparr>editNote := s\<rparr>, [])"
| "handle_v100 tz st Cancel_edit = (st\<lparr>showEditDay := None\<rparr>, [])"
| "handle_v100 tz st (Click_save r1 r2 r3) =
     (case showEditDay st of
        None \<Rightarrow> (st, [])
      | Some dayIndex \<Rightarrow> updateDayEntry_v100 st dayIndex r1 r2 r3)"
| "handle_v100 tz st (Change_title s) = (st\<lparr>newChallengeTitle := s\<rparr>, [])"
| "handle_v100 tz st Cancel_new_challenge = (st\<lparr>showNewChallenge := False\<rparr>, [])"
| "handle_v100 tz st (Submit_new_challenge now r1 r2 r3 r4) = createChallenge_v100 tz st now r1 r2 r3 r4"
| "handle_v100 tz st Dismiss_error = (st\<lparr>error := []\<rparr>, [])"

definition fire_v100 :: "int \<Rightarrow> app_state \<Rightarrow> event \<Rightarrow> app_state \<times> effect list" where
  "fire_v100 tz st ev = (if enabled_v100 st ev then handle_v100 tz st ev else (st, []))"

section \<open>The challenge store of the server\<close>

text \<open>
  Modelled from the spec: the backend that stores the challenges is not among the
  sources, only the client that calls it. A stored challenge has its owner, title,
  active flag, week start and creation time.
\<close>

record stored_challenge =
  sc_user :: nat
  sc_title :: jsstring
  sc_active :: bool
  sc_week_start :: Date
  sc_created :: nat

text \<open>
  Modelled from the spec: the error kind of \<^verbatim>\<open>createChallenge\<close> of the backend.
\<close>

datatype server_error = ValidationError

text \<open>
  Modelled from the spec: \<^verbatim>\<open>createChallenge(user, title, weekStartDate)\<close> of the backend
  fails with \<^verbatim>\<open>ValidationError\<close> if the title is empty; on success any previously active
  challenge of the user is deactivated and the new challenge is inserted with
  \<^verbatim>\<open>active = true\<close>, as one atomic step. \<open>now\<close> is the creation timestamp.
\<close>

definition server_createChallenge ::
  "nat \<Rightarrow> jsstring \<Rightarrow> Date \<Rightarrow> nat \<Rightarrow> stored_challenge list
     \<Rightarrow> server_error + (stored_challenge \<times> stored_challenge list)" where
  "server_createChallenge user t weekStartDate now db =
     (if t = [] then Inl ValidationError
      else (let new = \<lparr>sc_user = user, sc_title = t, sc_active = True,
                        sc_week_start = weekStartDate, sc_created = now\<rparr>
            in Inr (new,
                    map (\<lambda>c. if sc_user c = user \<and> sc_active c then c\<lparr>sc_active := False\<rparr> else c) db
                    @ [new])))"

text \<open>
  Modelled from the spec: \<^verbatim>\<open>listChallenges(user)\<close> of the backend returns all challenges
  of the user, most recent first by creation timestamp.
\<close>

definition server_listChallenges :: "nat \<Rightarrow> stored_challenge list \<Rightarrow> stored_challenge list" where
  "server_listChallenges user db = rev (sort_key sc_created (filter (\<lambda>c. sc_user c = user) db))"

text \<open>
  Modelled from the spec: the states the store reaches are those after any sequence of
  \<^verbatim>\<open>createChallenge\<close> calls (user, title, week start, timestamp) from the empty store; a
  call that fails leaves the store as it was.
\<close>

fun server_run :: "stored_challenge list \<Rightarrow> (nat \<times> jsstring \<times> Date \<times> nat) list \<Rightarrow> stored_challenge list" where
  "server_run db [] = db"
| "server_run db ((user, t, weekStartDate, now) # calls) =
     (case server_createChallenge user t weekStartDate now db of
        Inl err \<Rightarrow> server_run db calls
      | Inr (new, db') \<Rightarrow> server_run db' calls)"

section \<open>Auxiliary definitions and example data\<close>

text \<open>The active challenges of a user in the store.\<close>

definition active_of :: "nat \<Rightarrow> stored_challenge list \<Rightarrow> stored_challenge list" where
  "active_of user db = filter (\<lambda>c. sc_user c = user \<and> sc_active c) db"

text \<open>A daily entry of challenge 1 with the given id, day index, completion, difficulty and note.\<close>

definition ex_entry :: "int \<Rightarrow> int \<Rightarrow> bool \<Rightarrow> int option \<Rightarrow> jsstring option \<Rightarrow> DailyEntry" where
  "ex_entry i d c df n =
     \<lparr>e_id = i, challenge_id = 1, day_index = d, completed = c,
      difficulty = df, entry_note = n, e_created_at = []\<rparr>"

text \<open>
  An entry that shows nothing: not completed, difficulty \<^verbatim>\<open>null\<close> or \<^verbatim>\<open>0\<close>, note \<^verbatim>\<open>null\<close> or
  empty.
\<close>

definition blank_entry :: "DailyEntry \<Rightarrow> bool" where
  "blank_entry e =
     (\<not> completed e \<and> (difficulty e = None \<or> difficulty e = Some 0)
      \<and> (entry_note e = None \<or> entry_note e = Some []))"

text \<open>\<^verbatim>\<open>apiCall\<close> throws on these responses, and returns on the others.\<close>

fun throws :: "'a fetched \<Rightarrow> bool" where
  "throws (Rejected err) = True"
| "throws (Not_ok status errorData) = True"
| "throws (Ok (Inl err)) = True"
| "throws (Ok (Inr v)) = False"

text \<open>
  A logged-in session with the new-challenge dialog open, and one that shows challenge 7
  with an entry for Monday and has the edit dialog open on Monday.
\<close>

definition ex_dialog :: app_state where
  "ex_dialog = (initial_state (Some (ascii ''tok'')))\<lparr>showNewChallenge := True\<rparr>"

definition ex_challenge :: Challenge where
  "ex_challenge =
     \<lparr>c_id = 7, title = ascii ''No sugar'', is_active = True,
      week_start_date = ascii ''2025-08-25T10:00:00.000Z'',
      c_created_at = ascii ''2025-08-25T10:00:00.000Z''\<rparr>"

definition ex_editing :: app_state where
  "ex_editing =
     (initial_state (Some (ascii ''tok'')))
       \<lparr>currentChallenge := Some ex_challenge,
        dailyEntries := [ex_entry 1 0 True (Some 3) (Some (ascii ''tough''))],
        showEditDay := Some 0, editCompleted := True, editDifficulty := 3,
        editNote := ascii '' tough ''\<rparr>"

text \<open>The view without the class names and the version text.\<close>

definition without_presentation :: "view \<Rightarrow> view" where
  "without_presentation v =
     v\<lparr>view_version := None,
       view_panel := (case view_panel v of
                        Current_challenge cells \<Rightarrow>
                          Current_challenge (map (\<lambda>c. c\<lparr>cell_className := []\<rparr>) cells)
                      | Auth_form \<Rightarrow> Auth_form
                      | No_active_challenge \<Rightarrow> No_active_challenge)\<rparr>"





text \<open>
  The difficulty of a day-upsert request: \<open>upsert_difficulty\<close> is \<open>None\<close> for an effect
  that is no day-upsert request, and otherwise the difficulty field of its body.
\<close>

definition upsert_difficulty :: "effect \<Rightarrow> int option option" where
  "upsert_difficulty fx =
     (case fx of
        Fetch q \<Rightarrow> (case req_body q of Some (Day_json c d n) \<Rightarrow> Some d | _ \<Rightarrow> None)
      | _ \<Rightarrow> None)"






section \<open>Properties\<close>

subsection \<open>The seven day slots\<close>

lemma daySlots_length: "length (daySlots entries) = 7"
  by (simp add: daySlots_def dayNames_def)

lemma daySlots_nth:
  "i < 7 \<Longrightarrow> daySlots entries ! i =
     \<lparr>slot_index = i, slot_day = dayNames ! i,
      slot_entry = find (\<lambda>e. day_index e = int i) entries\<rparr>"
proof -
  assume i: "i < 7"
  have len: "length dayNames = 7" by (simp add: dayNames_def)
  with i show ?thesis by (simp add: daySlots_def nth_enumerate_eq)
qed





subsection \<open>One active challenge per user\<close>

lemma create_keeps_one_active:
  assumes "\<forall>u. length (active_of u db) \<le> 1"
    and "server_createChallenge user t w now db = Inr (new, db')"
  shows "\<forall>u. length (active_of u db') \<le> 1"
proof
  fix u
  from assms(2) have t: "t \<noteq> []"
    and db': "db' = map (\<lambda>c. if sc_user c = user \<and> sc_active c then c\<lparr>sc_active := False\<rparr> else c) db
          @ [\<lparr>sc_user = user, sc_title = t, sc_active = True, sc_week_start = w, sc_created = now\<rparr>]"
    by (auto simp: server_createChallenge_def Let_def split: if_splits)
  show "length (active_of u db') \<le> 1"
  proof (cases "u = user")
    case True
    have "filter (\<lambda>c. sc_user c = user \<and> sc_active c)
            (map (\<lambda>c. if sc_user c = user \<and> sc_active c then c\<lparr>sc_active := False\<rparr> else c) db) = []"
      by (induction db) auto
    with True db' show ?thesis by (simp add: active_of_def)
  next
    case False
    have "filter (\<lambda>c. sc_user c = u \<and> sc_active c)
            (map (\<lambda>c. if sc_user c = user \<and> sc_active c then c\<lparr>sc_active := False\<rparr> else c) db)
          = filter (\<lambda>c. sc_user c = u \<and> sc_active c) db"
      using False by (induction db) auto
    with False db' assms(1) show ?thesis by (simp add: active_of_def)
  qed
qed

lemma server_run_one_active:
  "\<forall>u. length (active_of u db) \<le> 1 \<Longrightarrow> \<forall>u. length (active_of u (server_run db calls)) \<le> 1"
proof (induction calls arbitrary: db)
  case Nil
  then show ?case by simp
next
  case (Cons call calls)
  obtain user t w now where call: "call = (user, t, w, now)" by (cases call) auto
  show ?case
  proof (cases "server_createChallenge user t w now db")
    case (Inl err)
    with call Cons show ?thesis by simp
  next
    case (Inr r)
    obtain new db' where r: "r = (new, db')" by (cases r) auto
    have "\<forall>u. length (active_of u db') \<le> 1"
      using create_keeps_one_active[OF Cons.prems] Inr r by blast
    from Cons.IH[OF this] call Inr r show ?thesis by simp
  qed
qed

lemma filter_active_list:
  "filter sc_active (server_listChallenges user db) = rev (sort_key sc_created (active_of user db))"
proof -
  have "filter sc_active (server_listChallenges user db)
        = rev (filter sc_active (sort_key sc_created (filter (\<lambda>c. sc_user c = user) db)))"
    unfolding server_listChallenges_def by (rule rev_filter[symmetric])
  also have "\<dots> = rev (sort_key sc_created (filter sc_active (filter (\<lambda>c. sc_user c = user) db)))"
    by (simp only: filter_sort)
  also have "filter sc_active (filter (\<lambda>c. sc_user c = user) db) = active_of user db"
    by (simp add: active_of_def conj_commute)
  finally show ?thesis .
qed

text \<open>
  The example of the specification: a second challenge of the same user with the same
  title deactivates the first; the list shows both, the newer first and alone active. A
  call with an empty title changes nothing.
\<close>

lemma server_run_example:
  "map (\<lambda>c. (sc_created c, sc_active c))
     (server_listChallenges 1
        (server_run [] [(1, ascii ''No sugar'', 0, 10), (1, [], 0, 15),
                        (1, ascii ''No sugar'', 0, 20), (2, ascii ''Run'', 0, 30)]))
     = [(20, True), (10, False)]"
  by (simp add: server_createChallenge_def server_listChallenges_def ascii_def Let_def)

text \<open>
  Claim C2. For every user, in every state the store reaches by \<^verbatim>\<open>createChallenge\<close> calls
  from the empty store (so also right after any such call), \<^verbatim>\<open>listChallenges\<close> has at
  most one challenge with \<^verbatim>\<open>active = true\<close>.
\<close>

theorem at_most_one_active_challenge:
  "length (filter sc_active (server_listChallenges user (server_run [] calls))) \<le> 1"
proof -
  have "\<forall>u. length (active_of u (server_run [] calls)) \<le> 1"
    by (rule server_run_one_active) (simp add: active_of_def)
  then show ?thesis by (simp add: filter_active_list)
qed

subsection \<open>A day without an entry\<close>

lemma dayCell_blank:
  "(dayCell (s\<lparr>slot_entry := Some e\<rparr>) = dayCell (s\<lparr>slot_entry := None\<rparr>)) = blank_entry e"
  by (cases "difficulty e"; cases "entry_note e")
     (auto simp: dayCell_def cellIcon_def entry_completed_def entry_difficulty_def
        entry_note_of_def blank_entry_def)

lemma dayCell_v100_blank:
  "(dayCell_v100 (s\<lparr>slot_entry := Some e\<rparr>) = dayCell_v100 (s\<lparr>slot_entry := None\<rparr>)) = blank_entry e"
  by (cases "difficulty e"; cases "entry_note e")
     (auto simp: dayCell_v100_def cellIcon_v100_def entry_completed_def entry_difficulty_def
        entry_note_of_def blank_entry_def)

lemma daySlots_v100_eq: "daySlots_v100 = daySlots"
  by (simp add: fun_eq_iff daySlots_v100_def daySlots_def)

lemma dayGrid_nth:
  "i < 7 \<Longrightarrow> dayGrid entries ! i =
     dayCell \<lparr>slot_index = i, slot_day = dayNames ! i,
              slot_entry = find (\<lambda>e. day_index e = int i) entries\<rparr>"
  by (simp add: dayGrid_def daySlots_length daySlots_nth)

lemma dayGrid_v100_nth:
  "i < 7 \<Longrightarrow> dayGrid_v100 entries ! i =
     dayCell_v100 \<lparr>slot_index = i, slot_day = dayNames ! i,
              slot_entry = find (\<lambda>e. day_index e = int i) entries\<rparr>"
  by (simp add: dayGrid_v100_def daySlots_v100_eq daySlots_length daySlots_nth)

lemma dayCell_explicit:
  "dayCell \<lparr>slot_index = i, slot_day = d, slot_entry = entry\<rparr> =
     (case entry of
        None \<Rightarrow>
          \<lparr>cell_key = i, cell_label = d, cell_opens = i,
           cell_className = ''day-box w-full h-16 rounded-lg border-2 transition-colors flex flex-col items-center justify-center border-blue-500'',
           cell_icon = X_icon, cell_noteIcon = False\<rparr>
      | Some e \<Rightarrow>
          \<lparr>cell_key = i, cell_label = d, cell_opens = i,
           cell_className =
             (if completed e
              then ''day-box w-full h-16 rounded-lg border-2 transition-colors flex flex-col items-center justify-center border-green-500''
              else ''day-box w-full h-16 rounded-lg border-2 transition-colors flex flex-col items-center justify-center border-blue-500''),
           cell_icon =
             (if completed e then Check_icon
              else (case difficulty e of
                      None \<Rightarrow> X_icon
                    | Some n \<Rightarrow> if n = 0 then X_icon else Emoji_div (at_index difficultyEmojis n))),
           cell_noteIcon = (case entry_note e of None \<Rightarrow> False | Some n \<Rightarrow> n \<noteq> [])\<rparr>)"
  by (cases entry)
     (auto simp: dayCell_def cellIcon_def entry_completed_def entry_difficulty_def
        entry_note_of_def split: option.splits)

lemma dayCell_v100_explicit:
  "dayCell_v100 \<lparr>slot_index = i, slot_day = d, slot_entry = entry\<rparr> =
     (case entry of
        None \<Rightarrow>
          \<lparr>cell_key = i, cell_label = d, cell_opens = i,
           cell_className = ''w-full h-16 rounded-lg border-2 transition-colors flex flex-col items-center justify-center border-gray-200 bg-gray-50 hover:bg-gray-100'',
           cell_icon = X_icon, cell_noteIcon = False\<rparr>
      | Some e \<Rightarrow>
          \<lparr>cell_key = i, cell_label = d, cell_opens = i,
           cell_className =
             (if completed e
              then ''w-full h-16 rounded-lg border-2 transition-colors flex flex-col items-center justify-center border-green-500 bg-green-50''
              else ''w-full h-16 rounded-lg border-2 transition-colors flex flex-col items-center justify-center border-gray-200 bg-gray-50 hover:bg-gray-100''),
           cell_icon =
             (if completed e then Check_icon
              else (case difficulty e of
                      None \<Rightarrow> X_icon
                    | Some n \<Rightarrow> if n = 0 then X_icon else Emoji_div (at_index difficultyEmojis n))),
           cell_noteIcon = (case entry_note e of None \<Rightarrow> False | Some n \<Rightarrow> n \<noteq> [])\<rparr>)"
  by (cases entry)
     (auto simp: dayCell_v100_def cellIcon_v100_def entry_completed_def entry_difficulty_def
        entry_note_of_def split: option.splits)

lemma emoji_table:
  "at_index difficultyEmojis 1 = Some [0xD83D, 0xDE05]"
  "at_index difficultyEmojis 2 = Some [0xD83D, 0xDE10]"
  "at_index difficultyEmojis 3 = Some [0xD83D, 0xDE2C]"
  "at_index difficultyEmojis 4 = Some [0xD83D, 0xDE30]"
  "at_index difficultyEmojis 5 = Some [0xD83D, 0xDD25]"
  "n < 0 \<or> 5 < n \<Longrightarrow> at_index difficultyEmojis n = None"
  by (auto simp: at_index_def difficultyEmojis_def)

text \<open>
  Claim C1, as amended. For every day index 0 to 6, in both versions: the cell of a day
  without an entry is the cross with no note icon and the class of a day that is not
  completed. The cell of a day with an entry is determined by the \<^verbatim>\<open>completed\<close>,
  \<^verbatim>\<open>difficulty\<close> and \<^verbatim>\<open>note\<close> of the first entry with that index alone: the check mark and
  the completed class when it is completed; otherwise the emoji of the difficulty when
  the difficulty is set and not 0, and the cross when it is unset or 0; and the note icon
  when the note is set and not empty. So the cell of a day equals the cell of a day
  without an entry exactly when the list has no entry for the index or that entry is
  blank (not completed, difficulty unset or 0, note unset or empty): an entry that is
  not completed but has a non-zero difficulty or a non-empty note is shown differently
  from a day without an entry.
\<close>

theorem empty_slot_rendered_as_blank_entry:
  "i < 7 \<Longrightarrow>
     dayGrid [] ! i =
       \<lparr>cell_key = i, cell_label = dayNames ! i, cell_opens = i,
          cell_className = ''day-box w-full h-16 rounded-lg border-2 transition-colors flex flex-col items-center justify-center border-blue-500'',
          cell_icon = X_icon, cell_noteIcon = False\<rparr>
   \<and> dayGrid_v100 [] ! i =
       \<lparr>cell_key = i, cell_label = dayNames ! i, cell_opens = i,
          cell_className = ''w-full h-16 rounded-lg border-2 transition-colors flex flex-col items-center justify-center border-gray-200 bg-gray-50 hover:bg-gray-100'',
          cell_icon = X_icon, cell_noteIcon = False\<rparr>
   \<and> dayGrid entries ! i =
       (case find (\<lambda>e. day_index e = int i) entries of
          None \<Rightarrow> dayGrid [] ! i
        | Some e \<Rightarrow>
            \<lparr>cell_key = i, cell_label = dayNames ! i, cell_opens = i,
             cell_className =
               (if completed e
                then ''day-box w-full h-16 rounded-lg border-2 transition-colors flex flex-col items-center justify-center border-green-500''
                else ''day-box w-full h-16 rounded-lg border-2 transition-colors flex flex-col items-center justify-center border-blue-500''),
             cell_icon =
               (if completed e then Check_icon
                else (case difficulty e of
                        None \<Rightarrow> X_icon
                      | Some n \<Rightarrow>
                          if n = 0 then X_icon else Emoji_div (at_index difficultyEmojis n))),
             cell_noteIcon = (case entry_note e of None \<Rightarrow> False | Some n \<Rightarrow> n \<noteq> [])\<rparr>)
   \<and> dayGrid_v100 entries ! i =
       (case find (\<lambda>e. day_index e = int i) entries of
          None \<Rightarrow> dayGrid_v100 [] ! i
        | Some e \<Rightarrow>
            \<lparr>cell_key = i, cell_label = dayNames ! i, cell_opens = i,
             cell_className =
               (if completed e
                then ''w-full h-16 rounded-lg border-2 transition-colors flex flex-col items-center justify-center border-green-500 bg-green-50''
                else ''w-full h-16 rounded-lg border-2 transition-colors flex flex-col items-center justify-center border-gray-200 bg-gray-50 hover:bg-gray-100''),
             cell_icon =
               (if completed e then Check_icon
                else (case difficulty e of
                        None \<Rightarrow> X_icon
                      | Some n \<Rightarrow>
                          if n = 0 then X_icon else Emoji_div (at_index difficultyEmojis n))),
             cell_noteIcon = (case entry_note e of None \<Rightarrow> False | Some n \<Rightarrow> n \<noteq> [])\<rparr>)
   \<and> map (at_index difficultyEmojis) [0, 1, 2, 3, 4, 5, 6, - 1] =
       [Some [], Some [0xD83D, 0xDE05], Some [0xD83D, 0xDE10], Some [0xD83D, 0xDE2C],
        Some [0xD83D, 0xDE30], Some [0xD83D, 0xDD25], None, None]
   \<and> (dayGrid entries ! i = dayGrid [] ! i)
       = (case find (\<lambda>e. day_index e = int i) entries of None \<Rightarrow> True | Some e \<Rightarrow> blank_entry e)
   \<and> (dayGrid_v100 entries ! i = dayGrid_v100 [] ! i)
       = (case find (\<lambda>e. day_index e = int i) entries of None \<Rightarrow> True | Some e \<Rightarrow> blank_entry e)"
proof -
  assume i: "i < 7"
  let ?s = "\<lparr>slot_index = i, slot_day = dayNames ! i, slot_entry = None\<rparr>"
  have none: "find (\<lambda>e. day_index e = int i) ([] :: DailyEntry list) = None" by simp
  have e0: "dayGrid [] ! i =
       \<lparr>cell_key = i, cell_label = dayNames ! i, cell_opens = i,
          cell_className = ''day-box w-full h-16 rounded-lg border-2 transition-colors flex flex-col items-center justify-center border-blue-500'',
          cell_icon = X_icon, cell_noteIcon = False\<rparr>"
    using i by (simp add: dayGrid_nth dayCell_explicit)
  have e1: "dayGrid_v100 [] ! i =
       \<lparr>cell_key = i, cell_label = dayNames ! i, cell_opens = i,
          cell_className = ''w-full h-16 rounded-lg border-2 transition-colors flex flex-col items-center justify-center border-gray-200 bg-gray-50 hover:bg-gray-100'',
          cell_icon = X_icon, cell_noteIcon = False\<rparr>"
    using i by (simp add: dayGrid_v100_nth dayCell_v100_explicit)
  have f0: "dayGrid entries ! i =
       (case find (\<lambda>e. day_index e = int i) entries of
          None \<Rightarrow> dayGrid [] ! i
        | Some e \<Rightarrow>
            \<lparr>cell_key = i, cell_label = dayNames ! i, cell_opens = i,
             cell_className =
               (if completed e
                then ''day-box w-full h-16 rounded-lg border-2 transition-colors flex flex-col items-center justify-center border-green-500''
                else ''day-box w-full h-16 rounded-lg border-2 transition-colors flex flex-col items-center justify-center border-blue-500''),
             cell_icon =
               (if completed e then Check_icon
                else (case difficulty e of
                        None \<Rightarrow> X_icon
                      | Some n \<Rightarrow>
                          if n = 0 then X_icon else Emoji_div (at_index difficultyEmojis n))),
             cell_noteIcon = (case entry_note e of None \<Rightarrow> False | Some n \<Rightarrow> n \<noteq> [])\<rparr>)"
    using i by (simp add: dayGrid_nth dayCell_explicit split: option.splits)
  have f1: "dayGrid_v100 entries ! i =
       (case find (\<lambda>e. day_index e = int i) entries of
          None \<Rightarrow> dayGrid_v100 [] ! i
        | Some e \<Rightarrow>
            \<lparr>cell_key = i, cell_label = dayNames ! i, cell_opens = i,
             cell_className =
               (if completed e
                then ''w-full h-16 rounded-lg border-2 transition-colors flex flex-col items-center justify-center border-green-500 bg-green-50''
                else ''w-full h-16 rounded-lg border-2 transition-colors flex flex-col items-center justify-center border-gray-200 bg-gray-50 hover:bg-gray-100''),
             cell_icon =
               (if completed e then Check_icon
                else (case difficulty e of
                        None \<Rightarrow> X_icon
                      | Some n \<Rightarrow>
                          if n = 0 then X_icon else Emoji_div (at_index difficultyEmojis n))),
             cell_noteIcon = (case entry_note e of None \<Rightarrow> False | Some n \<Rightarrow> n \<noteq> [])\<rparr>)"
    using i by (simp add: dayGrid_v100_nth dayCell_v100_explicit split: option.splits)
  have t: "map (at_index difficultyEmojis) [0, 1, 2, 3, 4, 5, 6, - 1] =
       [Some [], Some [0xD83D, 0xDE05], Some [0xD83D, 0xDE10], Some [0xD83D, 0xDE2C],
        Some [0xD83D, 0xDE30], Some [0xD83D, 0xDD25], None, None]"
    by (simp add: at_index_def difficultyEmojis_def)
  have q: "(dayGrid entries ! i = dayGrid [] ! i)
       = (case find (\<lambda>e. day_index e = int i) entries of None \<Rightarrow> True | Some e \<Rightarrow> blank_entry e)
   \<and> (dayGrid_v100 entries ! i = dayGrid_v100 [] ! i)
       = (case find (\<lambda>e. day_index e = int i) entries of None \<Rightarrow> True | Some e \<Rightarrow> blank_entry e)"
  proof (cases "find (\<lambda>e. day_index e = int i) entries")
    case None
    with i show ?thesis by (simp add: dayGrid_nth dayGrid_v100_nth)
  next
    case (Some e)
    with i dayCell_blank[where s = "?s" and e = e] dayCell_v100_blank[where s = "?s" and e = e]
    show ?thesis
      by (simp add: dayGrid_nth dayGrid_v100_nth)
  qed
  from e0 e1 f0 f1 t q show ?thesis by (intro conjI) simp_all
qed

text \<open>
  At index 0: an incomplete entry with difficulty 2 shows the second emoji and differs
  from the empty day, which shows the cross; an incomplete entry with a note differs
  from the empty day; an incomplete entry with difficulty 0 and an empty note does not.
\<close>

theorem empty_slot_rendered_as_blank_entry_witness:
  "dayGrid [ex_entry 1 0 False (Some 2) None] ! 0 \<noteq> dayGrid [] ! 0
   \<and> cell_icon (dayGrid [ex_entry 1 0 False (Some 2) None] ! 0) = Emoji_div (Some [0xD83D, 0xDE10])
   \<and> cell_icon (dayGrid [] ! 0) = X_icon
   \<and> cell_noteIcon (dayGrid [] ! 0) = False
   \<and> dayGrid [ex_entry 1 0 False (Some 0) (Some [])] ! 0 = dayGrid [] ! 0
   \<and> dayGrid_v100 [ex_entry 1 0 False None (Some (ascii ''ok''))] ! 0 \<noteq> dayGrid_v100 [] ! 0"
proof -
  have i: "(0::nat) < 7" by simp
  note a = empty_slot_rendered_as_blank_entry[where i = 0
      and entries = "[ex_entry 1 0 False (Some 2) None]", OF i]
  note b = empty_slot_rendered_as_blank_entry[where i = 0
      and entries = "[ex_entry 1 0 False (Some 0) (Some [])]", OF i]
  note c = empty_slot_rendered_as_blank_entry[where i = 0
      and entries = "[ex_entry 1 0 False None (Some (ascii ''ok''))]", OF i]
  have 1: "dayGrid [ex_entry 1 0 False (Some 2) None] ! 0 \<noteq> dayGrid [] ! 0"
    using a by (simp add: ex_entry_def blank_entry_def)
  have 2: "cell_icon (dayGrid [ex_entry 1 0 False (Some 2) None] ! 0) = Emoji_div (Some [0xD83D, 0xDE10])"
    using a by (simp add: ex_entry_def at_index_def difficultyEmojis_def)
  have 3: "cell_icon (dayGrid [] ! 0) = X_icon" "cell_noteIcon (dayGrid [] ! 0) = False"
    using a by simp_all
  have 4: "dayGrid [ex_entry 1 0 False (Some 0) (Some [])] ! 0 = dayGrid [] ! 0"
    using b by (simp add: ex_entry_def blank_entry_def)
  have 5: "dayGrid_v100 [ex_entry 1 0 False None (Some (ascii ''ok''))] ! 0 \<noteq> dayGrid_v100 [] ! 0"
    using c by (simp add: ex_entry_def blank_entry_def ascii_def)
  from 1 2 3 4 5 show ?thesis by simp
qed

text \<open>
  Claim C1 as stated fails: an entry for Monday with \<^verbatim>\<open>completed = false\<close>, no difficulty
  and no note gives the same grid as no entry at all, in both versions.
\<close>

theorem no_entry_rendered_as_incomplete_entry:
  "completed (ex_entry 1 0 False None None) = False
   \<and> dayGrid [ex_entry 1 0 False None None] = dayGrid []
   \<and> dayGrid_v100 [ex_entry 1 0 False None None] = dayGrid_v100 []"
  by (simp add: dayGrid_def dayGrid_v100_def daySlots_def daySlots_v100_def dayNames_def
      dayCell_def dayCell_v100_def cellIcon_def cellIcon_v100_def entry_completed_def
      entry_difficulty_def entry_note_of_def ex_entry_def)

subsection \<open>The week start sent with a new challenge\<close>

lemma msPerDay_pos: "0 < msPerDay"
  by (simp add: msPerDay_def)

lemma Day_MakeDate: "Day (MakeDate day (TimeWithinDay t)) = day"
proof -
  have "0 \<le> t mod msPerDay" "t mod msPerDay < msPerDay"
    using msPerDay_pos by simp_all
  then have "(day * msPerDay + t mod msPerDay) div msPerDay = day"
    using msPerDay_pos by (simp add: div_pos_pos_trivial)
  then show ?thesis by (simp add: Day_def MakeDate_def TimeWithinDay_def)
qed

lemma LocalTime_UTC: "LocalTime tz (UTC tz t) = t"
  by (simp add: LocalTime_def UTC_def)

lemma monday_local_day:
  "Day (LocalTime tz (monday tz now)) = Day (LocalTime tz now) + 1 - getDay tz now"
  by (simp add: monday_def setDate_def Let_def LocalTime_UTC Day_MakeDate MakeDay_in_month_def
      getDate_def)

lemma monday_time_of_day:
  "TimeWithinDay (LocalTime tz (monday tz now)) = TimeWithinDay (LocalTime tz now)"
proof -
  have "(d * msPerDay + t mod msPerDay) mod msPerDay = t mod msPerDay" for d t :: int
    by simp
  then show ?thesis
    by (simp add: monday_def setDate_def Let_def LocalTime_UTC MakeDate_def TimeWithinDay_def)
qed

lemma getDay_range: "0 \<le> getDay tz now \<and> getDay tz now < 7"
  by (simp add: getDay_def WeekDay_def)


lemma week_arith:
  fixes d :: int
  assumes "(d + 4) mod 7 \<noteq> 0"
  shows "(d + 3) mod 7 = (d + 4) mod 7 - 1"
proof -
  define r where "r = (d + 4) mod 7"
  define q where "q = (d + 4) div 7"
  have "0 \<le> r" "r < 7" by (simp_all add: r_def)
  with assms have r: "0 \<le> r - 1" "r - 1 < 7" by (simp_all add: r_def)
  have "d + 4 = 7 * q + r" by (simp add: r_def q_def)
  then have "d + 3 = 7 * q + (r - 1)" by simp
  then have "(d + 3) mod 7 = r - 1" using r by (rule int_mod_pos_eq)
  then show ?thesis by (simp add: r_def)
qed

lemma week_arith0:
  fixes d :: int
  assumes "(d + 4) mod 7 = 0"
  shows "(d + 3) mod 7 = 6"
proof -
  define q where "q = (d + 4) div 7"
  have "d + 4 = 7 * q + (d + 4) mod 7" by (simp add: q_def)
  with assms have "d + 3 = 7 * (q - 1) + 6" by simp
  then show ?thesis by (rule int_mod_pos_eq[where q = "q - 1"]) simp_all
qed

text \<open>
  On every local day but a Sunday the day sent is the Monday of the ISO week of the
  local day; on a Sunday it is the day after, the Monday of the following ISO week.
\<close>

lemma monday_is_iso_monday_except_sunday:
  assumes "getDay tz now \<noteq> 0"
  shows "Day (LocalTime tz (monday tz now)) = iso_week_monday (Day (LocalTime tz now))"
proof -
  define d where "d = Day (LocalTime tz now)"
  have w: "getDay tz now = (d + 4) mod 7"
    by (simp only: getDay_def WeekDay_def d_def)
  with assms have "(d + 3) mod 7 = (d + 4) mod 7 - 1"
    by (intro week_arith) simp
  then have "iso_week_monday d = d + 1 - getDay tz now"
    unfolding iso_week_monday_def w by linarith
  then show ?thesis
    by (simp only: monday_local_day d_def)
qed

lemma monday_on_sunday:
  assumes "getDay tz now = 0"
  shows "Day (LocalTime tz (monday tz now)) = iso_week_monday (Day (LocalTime tz now)) + 7
     \<and> Day (LocalTime tz (monday tz now)) = Day (LocalTime tz now) + 1"
proof -
  define d where "d = Day (LocalTime tz now)"
  have w: "getDay tz now = (d + 4) mod 7"
    by (simp only: getDay_def WeekDay_def d_def)
  with assms have "(d + 3) mod 7 = 6"
    by (intro week_arith0) simp
  then have "iso_week_monday d = d - 6"
    unfolding iso_week_monday_def by linarith
  moreover have "Day (LocalTime tz (monday tz now)) = d + 1"
    using assms by (simp add: monday_local_day d_def)
  ultimately show ?thesis
    unfolding d_def by linarith
qed

lemma monday_v100_eq: "monday_v100 = monday"
  by (simp add: fun_eq_iff monday_v100_def monday_def)

text \<open>
  Claim C3 at Sunday 2025-08-31, 12:00 UTC, in a browser on UTC: the claim asks for the
  Monday of the ISO week containing that date, 2025-08-25 (day 20325); both versions
  compute, and the create request carries, Monday 2025-09-01, 12:00 UTC (day 20332).
\<close>

theorem week_start_on_sunday_is_next_monday:
  "getDay 0 1756641600000 = 0
   \<and> getDate 0 1756641600000 = 31
   \<and> Day (LocalTime 0 1756641600000) = 20331
   \<and> iso_week_monday 20331 = 20325
   \<and> monday 0 1756641600000 = 1756728000000
   \<and> monday_v100 0 1756641600000 = 1756728000000
   \<and> Day (LocalTime 0 1756728000000) = 20332
   \<and> snd (createChallenge 0 (ex_dialog\<lparr>newChallengeTitle := ascii ''No sugar''\<rparr>) 1756641600000
             (Ok (Inr ())) (Rejected NotAnError) (Rejected NotAnError) (Rejected NotAnError)) ! 1
       = Fetch \<lparr>req_url = Challenges_path,
                req_headers = [(''Authorization'', ascii ''Bearer tok''),
                               (''Content-Type'', ascii ''application/json'')],
                req_method = Some POST,
                req_body = Some (Challenge_json (ascii ''No sugar'') 1756728000000)\<rparr>"
proof -
  have m: "monday 0 1756641600000 = 1756728000000"
    by code_simp
  have t: "trim (ascii ''No sugar'') \<noteq> []"
    by (simp add: trim_def ascii_def isWhiteSpace_def)
  have tok: "token (ex_dialog\<lparr>newChallengeTitle := ascii ''No sugar''\<rparr>) = Some (ascii ''tok'')"
    by (simp add: ex_dialog_def initial_state_def)
  have a: "fst (apiCall (Some (ascii ''tok'')) Challenges_path
                 \<lparr>opt_method = Some POST,
                  opt_body = Some (Challenge_json (ascii ''No sugar'') 1756728000000)\<rparr>
                 (Ok (Inr ())))
           = \<lparr>req_url = Challenges_path,
                req_headers = [(''Authorization'', ascii ''Bearer tok''),
                               (''Content-Type'', ascii ''application/json'')],
                req_method = Some POST,
                req_body = Some (Challenge_json (ascii ''No sugar'') 1756728000000)\<rparr>"
    by (simp add: apiCall_def isFormData_def or_str_def ascii_def)
  have c: "snd (createChallenge 0 (ex_dialog\<lparr>newChallengeTitle := ascii ''No sugar''\<rparr>) 1756641600000
             (Ok (Inr ())) (Rejected NotAnError) (Rejected NotAnError) (Rejected NotAnError)) ! 1
       = Fetch (fst (apiCall (Some (ascii ''tok'')) Challenges_path
                 \<lparr>opt_method = Some POST,
                  opt_body = Some (Challenge_json (ascii ''No sugar'') 1756728000000)\<rparr>
                 (Ok (Inr ()))))"
    using t by (simp add: createChallenge_def m tok split_def Let_def apiCall_def)
  have d: "getDay 0 1756641600000 = 0" "Day (LocalTime 0 1756641600000) = 20331"
      "iso_week_monday 20331 = 20325" "Day (LocalTime 0 1756728000000) = 20332"
    by (simp_all add: getDay_def LocalTime_def Day_def WeekDay_def msPerDay_def iso_week_monday_def)
  have e: "getDate 0 1756641600000 = 31"
    by code_simp
  from m c[unfolded a] d e show ?thesis by (simp only: monday_v100_eq simp_thms)
qed

subsection \<open>Version 1.0.0 and version 1.1.0\<close>

lemma apiCall_v100_eq: "apiCall_v100 = apiCall"
  by (simp add: fun_eq_iff apiCall_v100_def apiCall_def)

lemma initial_state_v100_eq: "initial_state_v100 = initial_state"
  by (simp add: fun_eq_iff initial_state_v100_def initial_state_def)

lemma fetchCurrentChallenge_v100_eq: "fetchCurrentChallenge_v100 = fetchCurrentChallenge"
  by (intro ext) (simp only: fetchCurrentChallenge_v100_def fetchCurrentChallenge_def apiCall_v100_eq)

lemma fetchChallenges_v100_eq: "fetchChallenges_v100 = fetchChallenges"
  by (intro ext) (simp only: fetchChallenges_v100_def fetchChallenges_def apiCall_v100_eq)

lemma tokenEffect_v100_eq: "tokenEffect_v100 = tokenEffect"
  by (intro ext) (simp only: tokenEffect_v100_def tokenEffect_def fetchCurrentChallenge_v100_eq fetchChallenges_v100_eq)

lemma handleAuth_v100_eq: "handleAuth_v100 = handleAuth"
  by (intro ext) (simp only: handleAuth_v100_def handleAuth_def apiCall_v100_eq)

lemma handleLogout_v100_eq: "handleLogout_v100 = handleLogout"
  by (simp add: fun_eq_iff handleLogout_v100_def handleLogout_def)

lemma createChallenge_v100_eq: "createChallenge_v100 = createChallenge"
  by (intro ext) (simp only: createChallenge_v100_def createChallenge_def apiCall_v100_eq monday_v100_eq fetchCurrentChallenge_v100_eq fetchChallenges_v100_eq)

lemma updateDayEntry_v100_eq: "updateDayEntry_v100 = updateDayEntry"
  by (intro ext) (simp only: updateDayEntry_v100_def updateDayEntry_def apiCall_v100_eq fetchCurrentChallenge_v100_eq)

lemma openEditDay_v100_eq: "openEditDay_v100 = openEditDay"
  by (simp add: fun_eq_iff openEditDay_v100_def openEditDay_def)

lemma enabled_v100_eq: "enabled_v100 = enabled"
proof (intro ext)
  fix st ev
  show "enabled_v100 st ev = enabled st ev" by (cases ev) simp_all
qed

lemma handle_v100_eq: "handle_v100 = handle"
proof (intro ext)
  fix tz st ev
  show "handle_v100 tz st ev = handle tz st ev"
    by (cases ev)
       (simp_all only: handle_v100.simps handle.simps tokenEffect_v100_eq handleAuth_v100_eq
          handleLogout_v100_eq openEditDay_v100_eq updateDayEntry_v100_eq
          createChallenge_v100_eq)
qed

lemma fire_v100_eq: "fire_v100 = fire"
  by (simp add: fun_eq_iff fire_v100_def fire_def enabled_v100_eq handle_v100_eq)

lemma cellIcon_v100_eq: "cellIcon_v100 = cellIcon"
  by (simp add: fun_eq_iff cellIcon_v100_def cellIcon_def)

lemma dayCell_same_but_className:
  "(dayCell_v100 s)\<lparr>cell_className := []\<rparr> = (dayCell s)\<lparr>cell_className := []\<rparr>"
  by (simp add: dayCell_v100_def dayCell_def cellIcon_v100_eq)

lemma App_view_same_but_presentation:
  "without_presentation (App_view_v100 st) = without_presentation (App_view st)"
  by (cases "currentChallenge st")
     (simp_all add: without_presentation_def App_view_v100_def App_view_def dayGrid_v100_def
        dayGrid_def daySlots_v100_eq dayCell_same_but_className)

text \<open>
  Claim C10. The two versions have the same state and API logic: the request builder and
  error mapping of \<^verbatim>\<open>apiCall\<close>, the initial state, the authentication, logout, fetch,
  challenge-creation, day-upsert and edit-form handlers, the wiring of the events and
  the slots and icons of the day grid are equal as functions. What the two versions
  show differs in the class names and the version text only, and the version texts
  differ.
\<close>

theorem versions_equivalent:
  "apiCall_v100 = (apiCall :: jsstring option \<Rightarrow> endpoint \<Rightarrow> options \<Rightarrow> 'a fetched \<Rightarrow> request \<times> (thrown + 'a))
   \<and> initial_state_v100 = initial_state
   \<and> handleAuth_v100 = handleAuth
   \<and> handleLogout_v100 = handleLogout
   \<and> fetchCurrentChallenge_v100 = fetchCurrentChallenge
   \<and> fetchChallenges_v100 = fetchChallenges
   \<and> tokenEffect_v100 = tokenEffect
   \<and> monday_v100 = monday
   \<and> createChallenge_v100 = createChallenge
   \<and> updateDayEntry_v100 = updateDayEntry
   \<and> openEditDay_v100 = openEditDay
   \<and> enabled_v100 = enabled
   \<and> handle_v100 = handle
   \<and> fire_v100 = fire
   \<and> daySlots_v100 = daySlots
   \<and> cellIcon_v100 = cellIcon
   \<and> without_presentation (App_view_v100 st) = without_presentation (App_view st)
   \<and> APP_VERSION_v100 \<noteq> APP_VERSION"
  by (simp only: apiCall_v100_eq initial_state_v100_eq handleAuth_v100_eq handleLogout_v100_eq
      fetchCurrentChallenge_v100_eq fetchChallenges_v100_eq tokenEffect_v100_eq monday_v100_eq
      createChallenge_v100_eq updateDayEntry_v100_eq openEditDay_v100_eq enabled_v100_eq
      handle_v100_eq fire_v100_eq daySlots_v100_eq cellIcon_v100_eq
      App_view_same_but_presentation simp_thms)
     (simp add: APP_VERSION_v100_def APP_VERSION_def)

subsection \<open>Creating a challenge with an empty title\<close>

text \<open>
  Claim C5. \<^verbatim>\<open>createChallenge\<close> of the backend with an empty title fails with
  \<^verbatim>\<open>ValidationError\<close>, which is the result the caller receives, for every user, week start,
  timestamp and store; and no challenge is created: the store after the call is the store
  before it, whatever calls follow, and the list of challenges of every user is unchanged.
\<close>

theorem server_createChallenge_empty_title_fails:
  "server_createChallenge user [] weekStartDate now db = Inl ValidationError
   \<and> server_run db ((user, [], weekStartDate, now) # calls) = server_run db calls
   \<and> server_run db [(user, [], weekStartDate, now)] = db
   \<and> server_listChallenges u (server_run db [(user, [], weekStartDate, now)])
       = server_listChallenges u db"
  by (simp add: server_createChallenge_def)

text \<open>
  A title that is not empty is accepted: the call returns the new challenge, active, and
  the store grows by it.
\<close>

lemma server_createChallenge_nonempty_title:
  "t \<noteq> [] \<Longrightarrow>
     \<exists>db'. server_createChallenge user t weekStartDate now db
            = Inr (\<lparr>sc_user = user, sc_title = t, sc_active = True,
                     sc_week_start = weekStartDate, sc_created = now\<rparr>, db')
       \<and> length db' = Suc (length db)
       \<and> last db' = \<lparr>sc_user = user, sc_title = t, sc_active = True,
                       sc_week_start = weekStartDate, sc_created = now\<rparr>"
  by (simp add: server_createChallenge_def Let_def)

text \<open>
  The client never sends the backend an empty title. Through the form: the \<^verbatim>\<open>required\<close> input keeps the empty title from being submitted at
  all, and a title of white space is submitted and dropped by the handler without a
  request or an error.
\<close>

lemma blank_title_through_form:
  "fire tz ex_dialog (Submit_new_challenge now r1 r2 r3 r4) = (ex_dialog, [])
   \<and> fire tz (ex_dialog\<lparr>newChallengeTitle := ascii ''  ''\<rparr>) (Submit_new_challenge now r1 r2 r3 r4)
       = (ex_dialog\<lparr>newChallengeTitle := ascii ''  ''\<rparr>, [PreventDefault])"
proof -
  have "trim (ascii ''  '') = []"
    by (simp add: trim_def ascii_def isWhiteSpace_def)
  then show ?thesis
    by (simp add: fire_def createChallenge_def ex_dialog_def initial_state_def ascii_def)
qed

text \<open>
  The handler \<^verbatim>\<open>createChallenge\<close> of the client, in both versions: with a title that is
  empty or only white space it returns at once, without a request and without a change
  of the state. With any other title, a failure of the create request (such as a
  validation error of the backend) is put into the error state with its message, after
  the one request.
\<close>

lemma createChallenge_blank_title_silent:
  "(trim (newChallengeTitle st) = [] \<longrightarrow>
      createChallenge tz st now r_create r_current r_days r_all = (st, [PreventDefault])
      \<and> createChallenge_v100 tz st now r_create r_current r_days r_all = (st, [PreventDefault]))
   \<and> (trim (newChallengeTitle st) \<noteq> [] \<and> throws r_create \<longrightarrow>
        (\<exists>err q. snd (apiCall (token st) Challenges_path
                         \<lparr>opt_method = Some POST,
                          opt_body = Some (Challenge_json (newChallengeTitle st) (monday tz now))\<rparr>
                         r_create) = Inl err
           \<and> createChallenge tz st now r_create r_current r_days r_all
               = (st\<lparr>loading := False,
                     error := message_or err (ascii ''Failed to create challenge'')\<rparr>,
                  [PreventDefault, Fetch q])
           \<and> req_body q = Some (Challenge_json (newChallengeTitle st) (monday tz now))))"
proof (intro conjI impI)
  assume "trim (newChallengeTitle st) = []"
  then show "createChallenge tz st now r_create r_current r_days r_all = (st, [PreventDefault])"
    by (simp add: createChallenge_def)
  then show "createChallenge_v100 tz st now r_create r_current r_days r_all = (st, [PreventDefault])"
    by (simp only: createChallenge_v100_eq)
next
  assume a: "trim (newChallengeTitle st) \<noteq> [] \<and> throws r_create"
  let ?opts = "\<lparr>opt_method = Some POST,
                 opt_body = Some (Challenge_json (newChallengeTitle st) (monday tz now))\<rparr>"
  obtain q res where ap: "apiCall (token st) Challenges_path ?opts r_create = (q, res)"
    by (cases "apiCall (token st) Challenges_path ?opts r_create") auto
  from a obtain err where res: "res = Inl err"
    using ap by (cases r_create rule: throws.cases) (auto simp: apiCall_def Let_def)
  have q: "req_body q = Some (Challenge_json (newChallengeTitle st) (monday tz now))"
    using ap by (auto simp: apiCall_def Let_def)
  have "createChallenge tz st now r_create r_current r_days r_all
          = (st\<lparr>loading := False,
                error := message_or err (ascii ''Failed to create challenge'')\<rparr>,
             [PreventDefault, Fetch q])"
    using a ap res by (simp add: createChallenge_def Let_def)
  with ap res q
  show "\<exists>err q. snd (apiCall (token st) Challenges_path ?opts r_create) = Inl err
           \<and> createChallenge tz st now r_create r_current r_days r_all
               = (st\<lparr>loading := False,
                     error := message_or err (ascii ''Failed to create challenge'')\<rparr>,
                  [PreventDefault, Fetch q])
           \<and> req_body q = Some (Challenge_json (newChallengeTitle st) (monday tz now))"
    by auto
qed

text \<open>
  Called with the empty title, which the form does not submit, the handler sends nothing
  and leaves the error state empty.
\<close>

lemma createChallenge_empty_title_no_error:
  "newChallengeTitle ex_dialog = []
   \<and> createChallenge 0 ex_dialog 1756641600000
        (Not_ok 422 (Some (Some (ascii ''Title must not be empty''))))
        (Rejected NotAnError) (Rejected NotAnError) (Rejected NotAnError)
      = (ex_dialog, [PreventDefault])
   \<and> createChallenge_v100 0 ex_dialog 1756641600000
        (Not_ok 422 (Some (Some (ascii ''Title must not be empty''))))
        (Rejected NotAnError) (Rejected NotAnError) (Rejected NotAnError)
      = (ex_dialog, [PreventDefault])
   \<and> error ex_dialog = []"
  by (simp add: createChallenge_def createChallenge_v100_def ex_dialog_def initial_state_def trim_def)

text \<open>A title of two spaces, and a title that the backend rejects.\<close>

lemma createChallenge_blank_title_silent_example:
  "createChallenge 0 (ex_dialog\<lparr>newChallengeTitle := ascii ''  ''\<rparr>) 1756641600000
        (Ok (Inr ())) (Rejected NotAnError) (Rejected NotAnError) (Rejected NotAnError)
      = (ex_dialog\<lparr>newChallengeTitle := ascii ''  ''\<rparr>, [PreventDefault])
   \<and> error (fst (createChallenge 0 (ex_dialog\<lparr>newChallengeTitle := ascii ''No sugar''\<rparr>)
        1756641600000 (Not_ok 422 (Some (Some (ascii ''bad title''))))
        (Rejected NotAnError) (Rejected NotAnError) (Rejected NotAnError)))
      = ascii ''bad title''"
proof -
  have b: "trim (newChallengeTitle (ex_dialog\<lparr>newChallengeTitle := ascii ''  ''\<rparr>)) = []"
    by (simp add: trim_def ascii_def isWhiteSpace_def)
  have n: "trim (newChallengeTitle (ex_dialog\<lparr>newChallengeTitle := ascii ''No sugar''\<rparr>)) \<noteq> []"
    by (simp add: trim_def ascii_def isWhiteSpace_def)
  have t: "throws (Not_ok 422 (Some (Some (ascii ''bad title''))) :: unit fetched)"
    by simp
  have r: "snd (apiCall tok Challenges_path opts
              (Not_ok 422 (Some (Some (ascii ''bad title''))) :: unit fetched))
           = Inl (Error (ascii ''bad title''))" for tok opts
    by (simp add: apiCall_def or_str_def ascii_def)
  show ?thesis
    using createChallenge_blank_title_silent[of "ex_dialog\<lparr>newChallengeTitle := ascii ''  ''\<rparr>"
        0 1756641600000 "Ok (Inr ())" "Rejected NotAnError" "Rejected NotAnError" "Rejected NotAnError"]
      createChallenge_blank_title_silent[of "ex_dialog\<lparr>newChallengeTitle := ascii ''No sugar''\<rparr>"
        0 1756641600000 "Not_ok 422 (Some (Some (ascii ''bad title'')))" "Rejected NotAnError"
        "Rejected NotAnError" "Rejected NotAnError"]
      b n t
    by (auto simp: r message_or_def)
qed

subsection \<open>No current challenge\<close>

lemma apiCall_throws:
  "throws r \<Longrightarrow> \<exists>err. snd (apiCall tok ep opts r) = Inl err"
  by (cases r rule: throws.cases) (simp_all add: apiCall_def Let_def)

lemma apiCall_returns:
  "snd (apiCall tok ep opts (Ok (Inr v))) = Inr v"
  by (simp add: apiCall_def Let_def)

lemma fetchCurrentChallenge_failure:
  assumes "throws r_current \<or> r_current = Ok (Inr None) \<or> throws r_days"
  shows "fst (fetchCurrentChallenge st r_current r_days) = st\<lparr>currentChallenge := None, dailyEntries := []\<rparr>"
proof (cases "snd (apiCall (token st) Challenges_current_path no_options r_current)")
  case (Inl err)
  then show ?thesis
    by (simp add: fetchCurrentChallenge_def split_def)
next
  case (Inr c)
  show ?thesis
  proof (cases c)
    case None
    with Inr show ?thesis by (simp add: fetchCurrentChallenge_def split_def)
  next
    case (Some ch)
    with Inr assms have "throws r_days"
      using apiCall_throws[of r_current "token st" Challenges_current_path no_options]
      by (auto simp: apiCall_returns)
    then obtain err where
      "snd (apiCall (token st) (Challenge_days_path (c_id ch)) no_options r_days) = Inl err"
      using apiCall_throws by blast
    with Inr Some show ?thesis by (simp add: fetchCurrentChallenge_def split_def)
  qed
qed

text \<open>
  Claim C6. When the request for the current challenge fails (not found or any other
  failure of \<^verbatim>\<open>apiCall\<close>), answers \<^verbatim>\<open>null\<close>, or the request for its days fails,
  \<^verbatim>\<open>fetchCurrentChallenge\<close> of either version leaves the current challenge \<^verbatim>\<open>null\<close> and the
  daily entries empty and changes nothing else, in particular not the error state; a
  logged-in user then sees the panel \<^verbatim>\<open>No active challenge\<close> and no new error.
\<close>

theorem fetchCurrentChallenge_failure_is_no_active_challenge:
  assumes "throws r_current \<or> r_current = Ok (Inr None) \<or> throws r_days"
    and "f = fetchCurrentChallenge \<or> f = fetchCurrentChallenge_v100"
    and "st' = fst (f st r_current r_days)"
  shows "currentChallenge st' = None \<and> dailyEntries st' = [] \<and> error st' = error st
     \<and> st' = st\<lparr>currentChallenge := None, dailyEntries := []\<rparr>
     \<and> (truthy_str (token st) \<longrightarrow>
          view_panel (App_view st') = No_active_challenge
          \<and> view_panel (App_view_v100 st') = No_active_challenge
          \<and> view_error (App_view st') = view_error (App_view st)
          \<and> view_error (App_view_v100 st') = view_error (App_view_v100 st))"
proof -
  from assms(2,3) have "st' = fst (fetchCurrentChallenge st r_current r_days)"
    by (auto simp: fetchCurrentChallenge_v100_eq)
  with assms(1) have st': "st' = st\<lparr>currentChallenge := None, dailyEntries := []\<rparr>"
    by (simp add: fetchCurrentChallenge_failure)
  then show ?thesis
    by (simp add: App_view_def App_view_v100_def)
qed

text \<open>
  A session that shows a challenge: after the answer 404 to the request for the current
  challenge it shows \<^verbatim>\<open>No active challenge\<close> and no error; likewise after the answer 500
  to the request for the days.
\<close>

theorem fetchCurrentChallenge_failure_is_no_active_challenge_witness:
  "view_panel (App_view (fst (fetchCurrentChallenge ex_editing
      (Not_ok 404 (Some (Some (ascii ''No active challenge'')))) (Rejected NotAnError))))
     = No_active_challenge
   \<and> view_error (App_view (fst (fetchCurrentChallenge ex_editing
      (Not_ok 404 (Some (Some (ascii ''No active challenge'')))) (Rejected NotAnError))))
     = None
   \<and> currentChallenge ex_editing = Some ex_challenge
   \<and> currentChallenge (fst (fetchCurrentChallenge_v100 ex_editing
        (Ok (Inr (Some ex_challenge))) (Not_ok 500 None))) = None"
  using fetchCurrentChallenge_failure_is_no_active_challenge[where
      r_current = "Not_ok 404 (Some (Some (ascii ''No active challenge'')))"
      and r_days = "Rejected NotAnError" and f = fetchCurrentChallenge and st = ex_editing
      and st' = "fst (fetchCurrentChallenge ex_editing
         (Not_ok 404 (Some (Some (ascii ''No active challenge'')))) (Rejected NotAnError))"]
    fetchCurrentChallenge_failure_is_no_active_challenge[where
      r_current = "Ok (Inr (Some ex_challenge))" and r_days = "Not_ok 500 None"
      and f = fetchCurrentChallenge_v100 and st = ex_editing
      and st' = "fst (fetchCurrentChallenge_v100 ex_editing (Ok (Inr (Some ex_challenge)))
         (Not_ok 500 None))"]
  by (simp add: ex_editing_def initial_state_def App_view_def or_null_def ascii_def)

subsection \<open>Opening the edit dialog\<close>

text \<open>
  Claim C7. \<^verbatim>\<open>openEditDay\<close> of either version, for a day index whose entry exists (the first
  of the list with that index), loads the form from it: its \<^verbatim>\<open>completed\<close>, its difficulty
  (1 when the difficulty is unset or 0) and its note (empty when the note is unset);
  when no entry exists the form is not completed, difficulty 1, empty note. The dialog
  opens on that day and nothing else changes.
\<close>

theorem openEditDay_preloads_existing_entry:
  assumes "f = openEditDay \<or> f = openEditDay_v100"
  shows
  "(\<forall>entry. find (\<lambda>e. day_index e = dayIndex) (dailyEntries st) = Some entry \<longrightarrow>
      f st dayIndex = st\<lparr>editCompleted := completed entry,
                          editDifficulty := (case difficulty entry of
                                               None \<Rightarrow> 1
                                             | Some d \<Rightarrow> if d = 0 then 1 else d),
                          editNote := (case entry_note entry of None \<Rightarrow> [] | Some n \<Rightarrow> n),
                          showEditDay := Some dayIndex\<rparr>)
   \<and> (find (\<lambda>e. day_index e = dayIndex) (dailyEntries st) = None \<longrightarrow>
      f st dayIndex = st\<lparr>editCompleted := False, editDifficulty := 1, editNote := [],
                          showEditDay := Some dayIndex\<rparr>)"
proof -
  from assms have f: "f = openEditDay" by (auto simp: openEditDay_v100_eq)
  show ?thesis
    unfolding f
    by (auto simp: openEditDay_def or_num_def or_str_def split: option.splits)
qed

text \<open>An entry for Wednesday: opening Wednesday loads it, opening Thursday gives the defaults.\<close>

theorem openEditDay_preloads_existing_entry_witness:
  "openEditDay
     ((initial_state None)\<lparr>dailyEntries := [ex_entry 1 2 True (Some 4) (Some (ascii ''ok''))]\<rparr>) 2
     = (initial_state None)\<lparr>dailyEntries := [ex_entry 1 2 True (Some 4) (Some (ascii ''ok''))],
          editCompleted := True, editDifficulty := 4, editNote := ascii ''ok'',
          showEditDay := Some 2\<rparr>
   \<and> openEditDay_v100
     ((initial_state None)\<lparr>dailyEntries := [ex_entry 1 2 True (Some 4) (Some (ascii ''ok''))]\<rparr>) 3
     = (initial_state None)\<lparr>dailyEntries := [ex_entry 1 2 True (Some 4) (Some (ascii ''ok''))],
          editCompleted := False, editDifficulty := 1, editNote := [],
          showEditDay := Some 3\<rparr>"
  using openEditDay_preloads_existing_entry[where f = openEditDay and dayIndex = 2 and
      st = "(initial_state None)\<lparr>dailyEntries := [ex_entry 1 2 True (Some 4) (Some (ascii ''ok''))]\<rparr>"]
    openEditDay_preloads_existing_entry[where f = openEditDay_v100 and dayIndex = 3 and
      st = "(initial_state None)\<lparr>dailyEntries := [ex_entry 1 2 True (Some 4) (Some (ascii ''ok''))]\<rparr>"]
  by (simp add: ex_entry_def initial_state_def)

subsection \<open>The note of a day\<close>

lemma trim_Nil_iff: "trim s = [] \<longleftrightarrow> (\<forall>c\<in>set s. isWhiteSpace c)"
proof
  assume t: "trim s = []"
  let ?a = "dropWhile isWhiteSpace s"
  have "?a = []"
  proof (rule ccontr)
    assume a: "?a \<noteq> []"
    then have "\<not> isWhiteSpace (hd ?a)" by (rule hd_dropWhile)
    moreover from t have "\<forall>c\<in>set (rev ?a). isWhiteSpace c" by (simp add: trim_def)
    ultimately show False using a by (cases ?a) simp_all
  qed
  then show "\<forall>c\<in>set s. isWhiteSpace c"
    by (rule dropWhile_eq_Nil_conv[THEN iffD1])
next
  assume "\<forall>c\<in>set s. isWhiteSpace c"
  then have e: "dropWhile isWhiteSpace s = []"
    by (rule dropWhile_eq_Nil_conv[THEN iffD2])
  show "trim s = []" unfolding trim_def e by simp
qed

lemma trim_suffix:
  "dropWhile isWhiteSpace s
     = trim s @ rev (takeWhile isWhiteSpace (rev (dropWhile isWhiteSpace s)))"
proof -
  let ?a = "dropWhile isWhiteSpace s"
  have "rev (rev ?a) = rev (takeWhile isWhiteSpace (rev ?a) @ dropWhile isWhiteSpace (rev ?a))"
    by (simp only: takeWhile_dropWhile_id)
  then show ?thesis
    by (simp only: rev_append rev_rev_ident trim_def)
qed

lemma trim_decomposition:
  "s = takeWhile isWhiteSpace s @ trim s
         @ rev (takeWhile isWhiteSpace (rev (dropWhile isWhiteSpace s)))"
proof -
  have "s = takeWhile isWhiteSpace s @ dropWhile isWhiteSpace s" by simp
  also have "dropWhile isWhiteSpace s
     = trim s @ rev (takeWhile isWhiteSpace (rev (dropWhile isWhiteSpace s)))"
    by (rule trim_suffix)
  finally show ?thesis .
qed

lemma trim_ends:
  assumes "trim s \<noteq> []"
  shows "\<not> isWhiteSpace (hd (trim s)) \<and> \<not> isWhiteSpace (last (trim s))"
proof -
  let ?a = "dropWhile isWhiteSpace s"
  let ?b = "dropWhile isWhiteSpace (rev ?a)"
  from assms have b: "?b \<noteq> []" by (simp add: trim_def)
  then have "\<not> isWhiteSpace (hd ?b)" by (rule hd_dropWhile)
  with b have l: "\<not> isWhiteSpace (last (trim s))" by (simp add: trim_def last_rev)
  have a: "?a \<noteq> []"
  proof
    assume e: "?a = []"
    have "?b = []" unfolding e by simp
    with b show False by contradiction
  qed
  then have h: "\<not> isWhiteSpace (hd ?a)" by (rule hd_dropWhile)
  have "?a = trim s @ rev (takeWhile isWhiteSpace (rev ?a))"
    by (rule trim_suffix)
  then have "hd ?a = hd (trim s @ rev (takeWhile isWhiteSpace (rev ?a)))" by simp
  with assms have "hd ?a = hd (trim s)" by simp
  with h l show ?thesis by simp
qed

lemma updateDayEntry_effects:
  assumes "currentChallenge st = Some ch"
  shows "\<exists>q fx. snd (updateDayEntry st dayIndex r_put r_current r_days) = Fetch q # fx
           \<and> q = fst (apiCall (token st) (Challenge_day_path (c_id ch) dayIndex)
                     \<lparr>opt_method = Some PUT,
                      opt_body = Some (Day_json (editCompleted st) (Some (editDifficulty st))
                                         (or_null (trim (editNote st))))\<rparr> r_put)
           \<and> (fx = [] \<or> fx = snd (fetchCurrentChallenge (st\<lparr>loading := True\<rparr>) r_current r_days))"
  using assms
  by (auto simp: updateDayEntry_def Let_def split_def split: sum.splits)

text \<open>
  Claim C9. With a current challenge, the first effect of \<^verbatim>\<open>updateDayEntry\<close> of either
  version is the \<^verbatim>\<open>PUT\<close> request for the day, and its note is \<^verbatim>\<open>null\<close> when the text of the
  form is empty or white space only, and the trimmed text otherwise; it is never the
  empty string. The trimmed text is the text without a white-space prefix and a
  white-space suffix, and neither starts nor ends with white space.
\<close>

theorem updateDayEntry_sends_trimmed_note_or_null:
  assumes "currentChallenge st = Some ch"
    and "f = updateDayEntry \<or> f = updateDayEntry_v100"
  shows "\<exists>q fx. snd (f st dayIndex r_put r_current r_days) = Fetch q # fx
     \<and> req_url q = Challenge_day_path (c_id ch) dayIndex
     \<and> req_method q = Some PUT
     \<and> req_body q = Some (Day_json (editCompleted st) (Some (editDifficulty st))
                            (if \<forall>c\<in>set (editNote st). isWhiteSpace c then None
                             else Some (trim (editNote st))))
     \<and> req_body q \<noteq> Some (Day_json (editCompleted st) (Some (editDifficulty st)) (Some []))
     \<and> (\<exists>before after. editNote st = before @ trim (editNote st) @ after
           \<and> (\<forall>c\<in>set before. isWhiteSpace c) \<and> (\<forall>c\<in>set after. isWhiteSpace c))
     \<and> (trim (editNote st) \<noteq> [] \<longrightarrow>
           \<not> isWhiteSpace (hd (trim (editNote st))) \<and> \<not> isWhiteSpace (last (trim (editNote st))))"
proof -
  from assms(2) have f: "f = updateDayEntry" by (auto simp: updateDayEntry_v100_eq)
  obtain q fx where e: "snd (updateDayEntry st dayIndex r_put r_current r_days) = Fetch q # fx"
    and q: "q = fst (apiCall (token st) (Challenge_day_path (c_id ch) dayIndex)
                     \<lparr>opt_method = Some PUT,
                      opt_body = Some (Day_json (editCompleted st) (Some (editDifficulty st))
                                         (or_null (trim (editNote st))))\<rparr> r_put)"
    using updateDayEntry_effects[OF assms(1)] by blast
  have n: "or_null (trim (editNote st))
           = (if \<forall>c\<in>set (editNote st). isWhiteSpace c then None else Some (trim (editNote st)))"
    using trim_Nil_iff[of "editNote st"] by (simp add: or_null_def)
  have b: "req_body q = Some (Day_json (editCompleted st) (Some (editDifficulty st))
                            (if \<forall>c\<in>set (editNote st). isWhiteSpace c then None
                             else Some (trim (editNote st))))"
    unfolding q n[symmetric] by (simp add: apiCall_def Let_def)
  have b': "req_body q \<noteq> Some (Day_json (editCompleted st) (Some (editDifficulty st)) (Some []))"
    unfolding b using trim_Nil_iff[of "editNote st"] by auto
  have u: "req_url q = Challenge_day_path (c_id ch) dayIndex" "req_method q = Some PUT"
    unfolding q by (simp_all add: apiCall_def Let_def)
  have d: "\<exists>before after. editNote st = before @ trim (editNote st) @ after
           \<and> (\<forall>c\<in>set before. isWhiteSpace c) \<and> (\<forall>c\<in>set after. isWhiteSpace c)"
  proof (intro exI conjI)
    show "editNote st = takeWhile isWhiteSpace (editNote st) @ trim (editNote st)
         @ rev (takeWhile isWhiteSpace (rev (dropWhile isWhiteSpace (editNote st))))"
      by (rule trim_decomposition)
    show "\<forall>c\<in>set (takeWhile isWhiteSpace (editNote st)). isWhiteSpace c"
      by (auto dest: set_takeWhileD)
    show "\<forall>c\<in>set (rev (takeWhile isWhiteSpace (rev (dropWhile isWhiteSpace (editNote st))))). isWhiteSpace c"
      by (auto dest: set_takeWhileD)
  qed
  from e u b b' d trim_ends[of "editNote st"] show ?thesis
    unfolding f by blast
qed

text \<open>The note \<^verbatim>\<open>" tough "\<close> is sent as \<^verbatim>\<open>"tough"\<close>, the note of two spaces as \<^verbatim>\<open>null\<close>.\<close>

theorem updateDayEntry_sends_trimmed_note_or_null_witness:
  "(\<exists>q fx. snd (updateDayEntry ex_editing 0 (Ok (Inr ())) (Rejected NotAnError) (Rejected NotAnError))
              = Fetch q # fx
      \<and> req_body q = Some (Day_json True (Some 3) (Some (ascii ''tough''))))
   \<and> (\<exists>q fx. snd (updateDayEntry_v100 (ex_editing\<lparr>editNote := ascii ''  ''\<rparr>) 0 (Ok (Inr ()))
                     (Rejected NotAnError) (Rejected NotAnError))
              = Fetch q # fx
      \<and> req_body q = Some (Day_json True (Some 3) None))"
proof -
  have t1: "trim (ascii '' tough '') = ascii ''tough''"
    by (simp add: trim_def ascii_def isWhiteSpace_def)
  have w1: "\<not> (\<forall>c\<in>set (ascii '' tough ''). isWhiteSpace c)"
    by (simp add: ascii_def isWhiteSpace_def)
  have w2: "\<forall>c\<in>set (ascii ''  ''). isWhiteSpace c"
    by (simp add: ascii_def isWhiteSpace_def)
  have s: "currentChallenge ex_editing = Some ex_challenge" "editNote ex_editing = ascii '' tough ''"
    "editCompleted ex_editing = True" "editDifficulty ex_editing = 3"
    by (simp_all add: ex_editing_def initial_state_def)
  have s2: "currentChallenge (ex_editing\<lparr>editNote := ascii ''  ''\<rparr>) = Some ex_challenge"
    "editNote (ex_editing\<lparr>editNote := ascii ''  ''\<rparr>) = ascii ''  ''"
    "editCompleted (ex_editing\<lparr>editNote := ascii ''  ''\<rparr>) = True"
    "editDifficulty (ex_editing\<lparr>editNote := ascii ''  ''\<rparr>) = 3"
    by (simp_all add: ex_editing_def initial_state_def)
  note a = updateDayEntry_sends_trimmed_note_or_null[where st = ex_editing and ch = ex_challenge
        and f = updateDayEntry and dayIndex = 0 and r_put = "Ok (Inr ())"
        and r_current = "Rejected NotAnError" and r_days = "Rejected NotAnError",
        OF s(1) disjI1[OF refl]]
  note b = updateDayEntry_sends_trimmed_note_or_null[where
        st = "ex_editing\<lparr>editNote := ascii ''  ''\<rparr>" and ch = ex_challenge
        and f = updateDayEntry_v100 and dayIndex = 0 and r_put = "Ok (Inr ())"
        and r_current = "Rejected NotAnError" and r_days = "Rejected NotAnError",
        OF s2(1) disjI2[OF refl]]
  from a obtain q fx where
    "snd (updateDayEntry ex_editing 0 (Ok (Inr ())) (Rejected NotAnError) (Rejected NotAnError))
       = Fetch q # fx"
    "req_body q = Some (Day_json (editCompleted ex_editing) (Some (editDifficulty ex_editing))
                            (if \<forall>c\<in>set (editNote ex_editing). isWhiteSpace c then None
                             else Some (trim (editNote ex_editing))))"
    by blast
  then have 1: "\<exists>q fx. snd (updateDayEntry ex_editing 0 (Ok (Inr ())) (Rejected NotAnError)
                        (Rejected NotAnError)) = Fetch q # fx
      \<and> req_body q = Some (Day_json True (Some 3) (Some (ascii ''tough'')))"
    by (simp add: s t1 w1)
  from b obtain q' fx' where
    "snd (updateDayEntry_v100 (ex_editing\<lparr>editNote := ascii ''  ''\<rparr>) 0 (Ok (Inr ()))
           (Rejected NotAnError) (Rejected NotAnError)) = Fetch q' # fx'"
    "req_body q' = Some (Day_json (editCompleted (ex_editing\<lparr>editNote := ascii ''  ''\<rparr>))
                            (Some (editDifficulty (ex_editing\<lparr>editNote := ascii ''  ''\<rparr>)))
                            (if \<forall>c\<in>set (editNote (ex_editing\<lparr>editNote := ascii ''  ''\<rparr>)).
                                  isWhiteSpace c then None
                             else Some (trim (editNote (ex_editing\<lparr>editNote := ascii ''  ''\<rparr>)))))"
    by blast
  then have 2: "\<exists>q fx. snd (updateDayEntry_v100 (ex_editing\<lparr>editNote := ascii ''  ''\<rparr>) 0
                        (Ok (Inr ())) (Rejected NotAnError) (Rejected NotAnError)) = Fetch q # fx
      \<and> req_body q = Some (Day_json True (Some 3) None)"
    by (simp add: s2 w2)
  from 1 2 show ?thesis by (rule conjI)
qed

subsection \<open>The difficulty of a day-upsert request\<close>

lemma apiCall_body: "req_body (fst (apiCall tok ep opts r)) = opt_body opts"
  by (simp add: apiCall_def Let_def)


lemma upsert_difficulty_no_body [simp]:
  "upsert_difficulty (Fetch (fst (apiCall tok ep no_options r))) = None"
  by (simp add: upsert_difficulty_def apiCall_body no_options_def)

lemma upsert_difficulty_others [simp]:
  "upsert_difficulty (SetItem s) = None" "upsert_difficulty RemoveItem = None"
  "upsert_difficulty (ConsoleError err) = None" "upsert_difficulty PreventDefault = None"
  by (simp_all add: upsert_difficulty_def)































end
